theory Spec2Isabelle
  imports Main "HOL-Library.Word"
begin

section \<open>FreeFileSync: the comparison tree of base/file\_hierarchy.h\<close>

text \<open>
  A shallow embedding of \<^verbatim>\<open>FreeFileSync/Source/base/file_hierarchy.h\<close>.

  \<^item> \<^verbatim>\<open>Zstring\<close> and \<^verbatim>\<open>Zstringc\<close> are \<open>string\<close>; \<^verbatim>\<open>uint64_t\<close> and the 64-bit
    \<^verbatim>\<open>time_t\<close>/\<^verbatim>\<open>int64_t\<close> are \<open>64 word\<close> (no arithmetic is done on them here).
  \<^item> The class \<^verbatim>\<open>FileSystemObject\<close> is a record; \<^verbatim>\<open>FilePair\<close>, \<^verbatim>\<open>SymlinkPair\<close> and the
    non-recursive part of \<^verbatim>\<open>FolderPair\<close> extend it, so a member function of
    \<^verbatim>\<open>FileSystemObject\<close> is one function on every extension of the record.
  \<^item> A \<^verbatim>\<open>FolderPair\<close> owns its children (three \<^verbatim>\<open>std::list\<close>s): it is a datatype whose
    recursion runs through the list of sub-folders.
  \<^item> The reference \<^verbatim>\<open>parent_\<close> is not stored. What a member function reads from the
    parent (its relative path) is an argument; what it writes to the ancestors
    (\<^verbatim>\<open>notifySyncCfgChanged\<close>) is done by the functions that address an object inside a
    tree by its path.
  \<^item> \<^verbatim>\<open>assert\<close> is compiled out (release build): an asserted condition is a hypothesis of
    the theorem that needs it, not a branch of the function.
\<close>

subsection \<open>Enumerations and attribute structs\<close>

datatype SelectSide = SelectSide_left | SelectSide_right

definition getOtherSide :: "SelectSide \<Rightarrow> SelectSide" where
  "getOtherSide side = (if side = SelectSide_left then SelectSide_right else SelectSide_left)"

definition selectParam :: "SelectSide \<Rightarrow> 'a \<Rightarrow> 'a \<Rightarrow> 'a" where
  "selectParam side l r = (if side = SelectSide_left then l else r)"

text \<open>
  The enumerations of \<^verbatim>\<open>structures.h\<close> (a header outside this development; the
  enumerators are the ones file\_hierarchy.h and config.cpp name). \<^verbatim>\<open>CompareDirResult\<close> and
  \<^verbatim>\<open>CompareSymlinkResult\<close> are subsets that the header casts to \<^verbatim>\<open>CompareFileResult\<close>.
\<close>

datatype CompareFileResult =
    FILE_EQUAL
  | FILE_LEFT_SIDE_ONLY
  | FILE_RIGHT_SIDE_ONLY
  | FILE_LEFT_NEWER
  | FILE_RIGHT_NEWER
  | FILE_DIFFERENT_CONTENT
  | FILE_DIFFERENT_METADATA
  | FILE_CONFLICT

datatype SyncDirection = SyncDirection_left | SyncDirection_right | SyncDirection_none

datatype BaseFolderStatus =
  BaseFolderStatus_existing | BaseFolderStatus_notExisting | BaseFolderStatus_failure

text \<open>
  Modelled from the spec: the enumeration \<^verbatim>\<open>SyncOperation\<close> of structures.h, which is
  missing. The glossary lists Create, Update, Delete, Move, DoNothing and
  UnresolvedConflict; the side is the side that is written to.
\<close>

datatype SyncOperation =
    SO_CREATE SelectSide
  | SO_DELETE SelectSide
  | SO_UPDATE SelectSide
  | SO_MOVE SelectSide
  | SO_DO_NOTHING
  | SO_UNRESOLVED_CONFLICT

record FileAttributes =
  modTime :: "64 word"
  fileSize :: "64 word"
  filePrint :: "64 word"
  isFollowedSymlink :: bool

definition FileAttributes_default :: FileAttributes where
  "FileAttributes_default =
     \<lparr>modTime = 0, fileSize = 0, filePrint = 0, isFollowedSymlink = False\<rparr>"

definition FileAttributes_ctor :: "64 word \<Rightarrow> 64 word \<Rightarrow> 64 word \<Rightarrow> bool \<Rightarrow> FileAttributes" where
  "FileAttributes_ctor modTimeIn fileSizeIn filePrintIn followedSymlink =
     \<lparr>modTime = modTimeIn, fileSize = fileSizeIn, filePrint = filePrintIn,
      isFollowedSymlink = followedSymlink\<rparr>"

record LinkAttributes =
  linkModTime :: "64 word"

definition LinkAttributes_default :: LinkAttributes where
  "LinkAttributes_default = \<lparr>linkModTime = 0\<rparr>"

definition LinkAttributes_ctor :: "64 word \<Rightarrow> LinkAttributes" where
  "LinkAttributes_ctor modTimeIn = \<lparr>linkModTime = modTimeIn\<rparr>"

record FolderAttributes =
  folderIsFollowedSymlink :: bool

definition FolderAttributes_default :: FolderAttributes where
  "FolderAttributes_default = \<lparr>folderIsFollowedSymlink = False\<rparr>"

definition FolderAttributes_ctor :: "bool \<Rightarrow> FolderAttributes" where
  "FolderAttributes_ctor isSymlink = \<lparr>folderIsFollowedSymlink = isSymlink\<rparr>"

subsection \<open>ObjectMgr: the registry of live objects\<close>

text \<open>
  An \<^verbatim>\<open>ObjectId\<close> is the address of the object. The static set \<^verbatim>\<open>activeObjects_\<close> is
  the state; the constructor inserts \<^verbatim>\<open>this\<close>, the destructor erases it. \<^verbatim>\<open>retrieve\<close>
  returns the id itself (as a pointer to the object) or \<^verbatim>\<open>nullptr\<close>, here \<open>None\<close>.
\<close>

type_synonym ObjectId = nat

definition ObjectMgr_ctor :: "ObjectId \<Rightarrow> ObjectId set \<Rightarrow> ObjectId set" where
  "ObjectMgr_ctor this activeObjects = insert this activeObjects"

definition ObjectMgr_dtor :: "ObjectId \<Rightarrow> ObjectId set \<Rightarrow> ObjectId set" where
  "ObjectMgr_dtor this activeObjects = activeObjects - {this}"

definition retrieve :: "ObjectId \<Rightarrow> ObjectId set \<Rightarrow> ObjectId option" where
  "retrieve ident activeObjects = (if ident \<in> activeObjects then Some ident else None)"

subsection \<open>FileSystemObject\<close>

record FileSystemObject =
  cmpResultDescr :: string
  cmpResult :: CompareFileResult
  selectedForSync :: bool
  syncDir :: SyncDirection
  syncDirectionConflict :: string
  itemNameL :: string
  itemNameR :: string

text \<open>
  The constructor: \<^verbatim>\<open>itemNameR_(itemNameL == itemNameR ? itemNameL : itemNameR)\<close> shares
  the string buffer; the value is \<open>itemNameR\<close> in both branches.
\<close>

definition FileSystemObject_ctor ::
  "string \<Rightarrow> string \<Rightarrow> CompareFileResult \<Rightarrow> FileSystemObject" where
  "FileSystemObject_ctor nameL nameR defaultCmpResult =
     \<lparr>cmpResultDescr = [], cmpResult = defaultCmpResult, selectedForSync = True,
      syncDir = SyncDirection_none, syncDirectionConflict = [],
      itemNameL = nameL, itemNameR = (if nameL = nameR then nameL else nameR)\<rparr>"

definition getCategory :: "'a FileSystemObject_scheme \<Rightarrow> CompareFileResult" where
  "getCategory x = cmpResult x"

definition getSyncDir :: "'a FileSystemObject_scheme \<Rightarrow> SyncDirection" where
  "getSyncDir x = syncDir x"

definition isActive :: "'a FileSystemObject_scheme \<Rightarrow> bool" where
  "isActive x = selectedForSync x"

definition isEmpty :: "SelectSide \<Rightarrow> 'a FileSystemObject_scheme \<Rightarrow> bool" where
  "isEmpty side x = (selectParam side (itemNameL x) (itemNameR x) = [])"

definition isPairEmpty :: "'a FileSystemObject_scheme \<Rightarrow> bool" where
  "isPairEmpty x = (isEmpty SelectSide_left x \<and> isEmpty SelectSide_right x)"

definition getItemName :: "SelectSide \<Rightarrow> 'a FileSystemObject_scheme \<Rightarrow> string" where
  "getItemName side x =
     (let itemName = selectParam side (itemNameL x) (itemNameR x)
      in if itemName \<noteq> [] then itemName
         else selectParam (getOtherSide side) (itemNameL x) (itemNameR x))"

definition getItemNameAny :: "'a FileSystemObject_scheme \<Rightarrow> string" where
  "getItemNameAny x = getItemName SelectSide_left x"

text \<open>
  The setters below are the part of the member function that writes the object itself.
  Each of \<^verbatim>\<open>setSyncDir\<close>, \<^verbatim>\<open>setSyncDirConflict\<close>, \<^verbatim>\<open>setActive\<close> and \<^verbatim>\<open>flip\<close> ends in
  \<^verbatim>\<open>notifySyncCfgChanged()\<close>, which is virtual: see \<open>FolderPair_notifySyncCfgChanged\<close> for
  the folder's own part and \<open>atPath\<close> for the ancestors.
\<close>

definition FileSystemObject_setSyncDir ::
  "SyncDirection \<Rightarrow> 'a FileSystemObject_scheme \<Rightarrow> 'a FileSystemObject_scheme" where
  "FileSystemObject_setSyncDir newDir x = x\<lparr>syncDir := newDir, syncDirectionConflict := []\<rparr>"

definition FileSystemObject_setSyncDirConflict ::
  "string \<Rightarrow> 'a FileSystemObject_scheme \<Rightarrow> 'a FileSystemObject_scheme" where
  "FileSystemObject_setSyncDirConflict description x =
     x\<lparr>syncDir := SyncDirection_none, syncDirectionConflict := description\<rparr>"

definition FileSystemObject_setActive ::
  "bool \<Rightarrow> 'a FileSystemObject_scheme \<Rightarrow> 'a FileSystemObject_scheme" where
  "FileSystemObject_setActive active x = x\<lparr>selectedForSync := active\<rparr>"

text \<open>
  \<^verbatim>\<open>setCategory<res>\<close> exists for four values of \<open>res\<close> only; the other four
  specialisations are deleted, so a call with one of them does not compile. The model
  takes the template argument from the type of the allowed ones.
\<close>

datatype SettableCategory =
  Set_FILE_EQUAL | Set_FILE_DIFFERENT_CONTENT | Set_FILE_LEFT_NEWER | Set_FILE_RIGHT_NEWER

fun categoryOf :: "SettableCategory \<Rightarrow> CompareFileResult" where
  "categoryOf Set_FILE_EQUAL = FILE_EQUAL"
| "categoryOf Set_FILE_DIFFERENT_CONTENT = FILE_DIFFERENT_CONTENT"
| "categoryOf Set_FILE_LEFT_NEWER = FILE_LEFT_NEWER"
| "categoryOf Set_FILE_RIGHT_NEWER = FILE_RIGHT_NEWER"

definition setCategory ::
  "SettableCategory \<Rightarrow> 'a FileSystemObject_scheme \<Rightarrow> 'a FileSystemObject_scheme" where
  "setCategory res x = x\<lparr>cmpResult := categoryOf res\<rparr>"

definition setCategoryConflict ::
  "string \<Rightarrow> 'a FileSystemObject_scheme \<Rightarrow> 'a FileSystemObject_scheme" where
  "setCategoryConflict description x =
     x\<lparr>cmpResult := FILE_CONFLICT, cmpResultDescr := description\<rparr>"

definition setCategoryDiffMetadata ::
  "string \<Rightarrow> 'a FileSystemObject_scheme \<Rightarrow> 'a FileSystemObject_scheme" where
  "setCategoryDiffMetadata description x =
     x\<lparr>cmpResult := FILE_DIFFERENT_METADATA, cmpResultDescr := description\<rparr>"

definition clearItemName ::
  "SelectSide \<Rightarrow> 'a FileSystemObject_scheme \<Rightarrow> 'a FileSystemObject_scheme" where
  "clearItemName side x =
     (if side = SelectSide_left then x\<lparr>itemNameL := []\<rparr> else x\<lparr>itemNameR := []\<rparr>)"

text \<open>
  \<^verbatim>\<open>removeObject<side>\<close>: the two specialisations differ in the side only. The virtual
  \<^verbatim>\<open>removeObjectL/R\<close> of the derived class is the argument \<open>removeObjectLR\<close>.
  \<^verbatim>\<open>propagateChangedItemName\<close> does something for a folder only (the \<^verbatim>\<open>dynamic_cast\<close>):
  see \<open>FolderPair_removeObject\<close>.
\<close>

definition FileSystemObject_removeObject ::
  "SelectSide \<Rightarrow> ('a FileSystemObject_scheme \<Rightarrow> 'a FileSystemObject_scheme) \<Rightarrow>
   'a FileSystemObject_scheme \<Rightarrow> 'a FileSystemObject_scheme" where
  "FileSystemObject_removeObject side removeObjectLR x =
     FileSystemObject_setSyncDir SyncDirection_none
       (removeObjectLR
         (clearItemName side
           (x\<lparr>cmpResult :=
                (if isEmpty (getOtherSide side) x then FILE_EQUAL
                 else if side = SelectSide_left then FILE_RIGHT_SIDE_ONLY
                 else FILE_LEFT_SIDE_ONLY)\<rparr>)))"

text \<open>\<^verbatim>\<open>setSynced\<close>, without the propagation of the changed name (folders only).\<close>

definition FileSystemObject_setSynced ::
  "string \<Rightarrow> 'a FileSystemObject_scheme \<Rightarrow> 'a FileSystemObject_scheme" where
  "FileSystemObject_setSynced itemName x =
     FileSystemObject_setSyncDir SyncDirection_none
       (x\<lparr>itemNameL := itemName, itemNameR := itemName, cmpResult := FILE_EQUAL\<rparr>)"

fun flipCategory :: "CompareFileResult \<Rightarrow> CompareFileResult" where
  "flipCategory FILE_LEFT_SIDE_ONLY = FILE_RIGHT_SIDE_ONLY"
| "flipCategory FILE_RIGHT_SIDE_ONLY = FILE_LEFT_SIDE_ONLY"
| "flipCategory FILE_LEFT_NEWER = FILE_RIGHT_NEWER"
| "flipCategory FILE_RIGHT_NEWER = FILE_LEFT_NEWER"
| "flipCategory FILE_DIFFERENT_CONTENT = FILE_DIFFERENT_CONTENT"
| "flipCategory FILE_EQUAL = FILE_EQUAL"
| "flipCategory FILE_DIFFERENT_METADATA = FILE_DIFFERENT_METADATA"
| "flipCategory FILE_CONFLICT = FILE_CONFLICT"

definition FileSystemObject_flip ::
  "'a FileSystemObject_scheme \<Rightarrow> 'a FileSystemObject_scheme" where
  "FileSystemObject_flip x =
     x\<lparr>itemNameL := itemNameR x, itemNameR := itemNameL x,
       cmpResult := flipCategory (cmpResult x)\<rparr>"

subsection \<open>FilePair and SymlinkPair\<close>

record FilePair = FileSystemObject +
  fileAttrL :: FileAttributes
  fileAttrR :: FileAttributes
  moveFileRef :: "ObjectId option"

record SymlinkPair = FileSystemObject +
  linkAttrL :: LinkAttributes
  linkAttrR :: LinkAttributes

definition FilePair_ctor ::
  "string \<Rightarrow> FileAttributes \<Rightarrow> CompareFileResult \<Rightarrow> string \<Rightarrow> FileAttributes \<Rightarrow> FilePair" where
  "FilePair_ctor nameL aL defaultCmpResult nameR aR =
     FileSystemObject.extend (FileSystemObject_ctor nameL nameR defaultCmpResult)
       (FilePair.fields aL aR None)"

definition SymlinkPair_ctor ::
  "string \<Rightarrow> LinkAttributes \<Rightarrow> CompareFileResult \<Rightarrow> string \<Rightarrow> LinkAttributes \<Rightarrow> SymlinkPair" where
  "SymlinkPair_ctor nameL aL defaultCmpResult nameR aR =
     FileSystemObject.extend (FileSystemObject_ctor nameL nameR defaultCmpResult)
       (SymlinkPair.fields aL aR)"

definition getAttributes :: "SelectSide \<Rightarrow> FilePair \<Rightarrow> FileAttributes" where
  "getAttributes side f = selectParam side (fileAttrL f) (fileAttrR f)"

definition getFileSize :: "SelectSide \<Rightarrow> FilePair \<Rightarrow> 64 word" where
  "getFileSize side f = fileSize (selectParam side (fileAttrL f) (fileAttrR f))"

definition getLastWriteTime :: "SelectSide \<Rightarrow> FilePair \<Rightarrow> 64 word" where
  "getLastWriteTime side f = modTime (selectParam side (fileAttrL f) (fileAttrR f))"

definition getFilePrint :: "SelectSide \<Rightarrow> FilePair \<Rightarrow> 64 word" where
  "getFilePrint side f = filePrint (selectParam side (fileAttrL f) (fileAttrR f))"

definition FilePair_isFollowedSymlink :: "SelectSide \<Rightarrow> FilePair \<Rightarrow> bool" where
  "FilePair_isFollowedSymlink side f =
     isFollowedSymlink (selectParam side (fileAttrL f) (fileAttrR f))"

definition setMoveRef :: "ObjectId option \<Rightarrow> FilePair \<Rightarrow> FilePair" where
  "setMoveRef refId f = f\<lparr>moveFileRef := refId\<rparr>"

definition getMoveRef :: "FilePair \<Rightarrow> ObjectId option" where
  "getMoveRef f = moveFileRef f"

definition FilePair_removeObjectLR :: "SelectSide \<Rightarrow> FilePair \<Rightarrow> FilePair" where
  "FilePair_removeObjectLR side f =
     (if side = SelectSide_left then f\<lparr>fileAttrL := FileAttributes_default\<rparr>
      else f\<lparr>fileAttrR := FileAttributes_default\<rparr>)"

definition FilePair_removeObject :: "SelectSide \<Rightarrow> FilePair \<Rightarrow> FilePair" where
  "FilePair_removeObject side f =
     FileSystemObject_removeObject side (FilePair_removeObjectLR side) f"

definition SymlinkPair_removeObjectLR :: "SelectSide \<Rightarrow> SymlinkPair \<Rightarrow> SymlinkPair" where
  "SymlinkPair_removeObjectLR side l =
     (if side = SelectSide_left then l\<lparr>linkAttrL := LinkAttributes_default\<rparr>
      else l\<lparr>linkAttrR := LinkAttributes_default\<rparr>)"

definition SymlinkPair_removeObject :: "SelectSide \<Rightarrow> SymlinkPair \<Rightarrow> SymlinkPair" where
  "SymlinkPair_removeObject side l =
     FileSystemObject_removeObject side (SymlinkPair_removeObjectLR side) l"

definition FilePair_flip :: "FilePair \<Rightarrow> FilePair" where
  "FilePair_flip f =
     (let g = FileSystemObject_flip f
      in g\<lparr>fileAttrL := fileAttrR g, fileAttrR := fileAttrL g\<rparr>)"

definition SymlinkPair_flip :: "SymlinkPair \<Rightarrow> SymlinkPair" where
  "SymlinkPair_flip l =
     (let g = FileSystemObject_flip l
      in g\<lparr>linkAttrL := linkAttrR g, linkAttrR := linkAttrL g\<rparr>)"

text \<open>
  \<^verbatim>\<open>FilePair::setSyncedTo<sideTrg>\<close>: the attributes of both sides are built with the one
  \<open>fileSizeV\<close>, the move reference is reset, then \<^verbatim>\<open>FileSystemObject::setSynced\<close>.
\<close>

definition FilePair_setSyncedTo ::
  "SelectSide \<Rightarrow> string \<Rightarrow> 64 word \<Rightarrow> 64 word \<Rightarrow> 64 word \<Rightarrow> 64 word \<Rightarrow> 64 word \<Rightarrow>
   bool \<Rightarrow> bool \<Rightarrow> FilePair \<Rightarrow> FilePair" where
  "FilePair_setSyncedTo sideTrg itemName fileSizeV lastWriteTimeTrg lastWriteTimeSrc
       filePrintTrg filePrintSrc isSymlinkTrg isSymlinkSrc f =
     (let trg = FileAttributes_ctor lastWriteTimeTrg fileSizeV filePrintTrg isSymlinkTrg;
          src = FileAttributes_ctor lastWriteTimeSrc fileSizeV filePrintSrc isSymlinkSrc;
          f1 = (if sideTrg = SelectSide_left then f\<lparr>fileAttrL := trg\<rparr>
                else f\<lparr>fileAttrR := trg\<rparr>);
          f2 = (if getOtherSide sideTrg = SelectSide_left then f1\<lparr>fileAttrL := src\<rparr>
                else f1\<lparr>fileAttrR := src\<rparr>);
          f3 = f2\<lparr>moveFileRef := None\<rparr>
      in FileSystemObject_setSynced itemName f3)"

definition SymlinkPair_setSyncedTo ::
  "SelectSide \<Rightarrow> string \<Rightarrow> 64 word \<Rightarrow> 64 word \<Rightarrow> SymlinkPair \<Rightarrow> SymlinkPair" where
  "SymlinkPair_setSyncedTo sideTrg itemName lastWriteTimeTrg lastWriteTimeSrc l =
     (let trg = LinkAttributes_ctor lastWriteTimeTrg;
          src = LinkAttributes_ctor lastWriteTimeSrc;
          l1 = (if sideTrg = SelectSide_left then l\<lparr>linkAttrL := trg\<rparr>
                else l\<lparr>linkAttrR := trg\<rparr>);
          l2 = (if getOtherSide sideTrg = SelectSide_left then l1\<lparr>linkAttrL := src\<rparr>
                else l1\<lparr>linkAttrR := src\<rparr>)
      in FileSystemObject_setSynced itemName l2)"

subsection \<open>FolderPair, ContainerObject and BaseFolderPair\<close>

text \<open>
  \<open>FolderObject\<close> holds what a \<^verbatim>\<open>FolderPair\<close> stores besides its children: the
  \<^verbatim>\<open>FileSystemObject\<close> part, the cached relative paths of \<^verbatim>\<open>ContainerObject\<close>, the
  buffered sync operation and the two attribute structs.
\<close>

record FolderObject = FileSystemObject +
  relPathL :: string
  relPathR :: string
  syncOpBuffered :: "SyncOperation option"
  folderAttrL :: FolderAttributes
  folderAttrR :: FolderAttributes

datatype FolderPair =
  FolderPair (folderObj: FolderObject) (subFiles: "FilePair list")
    (subLinks: "SymlinkPair list") (subFolders: "FolderPair list")

datatype CompareVariant =
  CompareVariant_timeSize | CompareVariant_content | CompareVariant_size

text \<open>
  \<^verbatim>\<open>AbstractPath\<close> and \<^verbatim>\<open>FilterRef\<close> are declared in other headers and are only
  stored here: they are the type parameters \<open>'path\<close> and \<open>'filter\<close>.
\<close>

record ('path, 'filter) BaseFolderPair =
  baseSubFiles :: "FilePair list"
  baseSubLinks :: "SymlinkPair list"
  baseSubFolders :: "FolderPair list"
  baseRelPathL :: string
  baseRelPathR :: string
  filterRef :: 'filter
  cmpVar :: CompareVariant
  fileTimeTolerance :: "32 word"
  ignoreTimeShiftMinutes :: "32 word list"
  folderStatusLeft :: BaseFolderStatus
  folderStatusRight :: BaseFolderStatus
  folderPathLeft :: 'path
  folderPathRight :: 'path

definition BaseFolderPair_ctor ::
  "'path \<Rightarrow> BaseFolderStatus \<Rightarrow> 'path \<Rightarrow> BaseFolderStatus \<Rightarrow> 'filter \<Rightarrow> CompareVariant \<Rightarrow>
   32 word \<Rightarrow> 32 word list \<Rightarrow> ('path, 'filter) BaseFolderPair" where
  "BaseFolderPair_ctor pathLeft statusLeft pathRight statusRight flt cv tol shifts =
     \<lparr>baseSubFiles = [], baseSubLinks = [], baseSubFolders = [],
      baseRelPathL = [], baseRelPathR = [],
      filterRef = flt, cmpVar = cv, fileTimeTolerance = tol, ignoreTimeShiftMinutes = shifts,
      folderStatusLeft = statusLeft, folderStatusRight = statusRight,
      folderPathLeft = pathLeft, folderPathRight = pathRight\<rparr>"

definition getFolderStatus :: "SelectSide \<Rightarrow> ('path, 'filter) BaseFolderPair \<Rightarrow> BaseFolderStatus" where
  "getFolderStatus side b = selectParam side (folderStatusLeft b) (folderStatusRight b)"

definition getAbstractPath :: "SelectSide \<Rightarrow> ('path, 'filter) BaseFolderPair \<Rightarrow> 'path" where
  "getAbstractPath side b = selectParam side (folderPathLeft b) (folderPathRight b)"

text \<open>
  \<^verbatim>\<open>FolderPair::notifySyncCfgChanged\<close>, the part on the folder itself: the buffer is
  reset. (\<^verbatim>\<open>ContainerObject::notifySyncCfgChanged\<close>, which a \<^verbatim>\<open>BaseFolderPair\<close> keeps,
  does nothing.)
\<close>

definition FolderPair_notifySyncCfgChanged :: "FolderObject \<Rightarrow> FolderObject" where
  "FolderPair_notifySyncCfgChanged ob = ob\<lparr>syncOpBuffered := None\<rparr>"

text \<open>
  \<^verbatim>\<open>FolderPair::flip\<close>: \<^verbatim>\<open>ContainerObject::flip\<close> (the children, then the swap of the
  relative paths), \<^verbatim>\<open>FileSystemObject::flip\<close> (which notifies), the swap of the
  attributes. The notifications of the children reach this folder and its ancestors
  only, and this folder notifies itself and the same ancestors.
\<close>

fun FolderPair_flip :: "FolderPair \<Rightarrow> FolderPair" where
  "FolderPair_flip (FolderPair ob fs ls ds) =
     FolderPair
       (let c = ob\<lparr>relPathL := relPathR ob, relPathR := relPathL ob\<rparr>;
            g = FolderPair_notifySyncCfgChanged (FileSystemObject_flip c)
        in g\<lparr>folderAttrL := folderAttrR g, folderAttrR := folderAttrL g\<rparr>)
       (map FilePair_flip fs) (map SymlinkPair_flip ls) (map FolderPair_flip ds)"

definition BaseFolderPair_flip ::
  "('path, 'filter) BaseFolderPair \<Rightarrow> ('path, 'filter) BaseFolderPair" where
  "BaseFolderPair_flip b =
     b\<lparr>baseSubFiles := map FilePair_flip (baseSubFiles b),
       baseSubLinks := map SymlinkPair_flip (baseSubLinks b),
       baseSubFolders := map FolderPair_flip (baseSubFolders b),
       baseRelPathL := baseRelPathR b, baseRelPathR := baseRelPathL b,
       folderStatusLeft := folderStatusRight b, folderStatusRight := folderStatusLeft b,
       folderPathLeft := folderPathRight b, folderPathRight := folderPathLeft b\<rparr>"

text \<open>
  The relative paths. \<^verbatim>\<open>appendPath\<close> is a function of the zen library, which
  is not modelled: it is the parameter \<open>appendPath\<close> of every function that calls it.
  The relative path of the parent, which the code reads through \<^verbatim>\<open>parent()\<close>, is the
  argument \<open>parentRel\<close>.
\<close>

definition getRelativePath :: "SelectSide \<Rightarrow> FolderObject \<Rightarrow> string" where
  "getRelativePath side ob = selectParam side (relPathL ob) (relPathR ob)"

definition setRelPath :: "SelectSide \<Rightarrow> string \<Rightarrow> FolderObject \<Rightarrow> FolderObject" where
  "setRelPath side p ob =
     (if side = SelectSide_left then ob\<lparr>relPathL := p\<rparr> else ob\<lparr>relPathR := p\<rparr>)"

fun updateRelPathsRecursion ::
  "(string \<Rightarrow> string \<Rightarrow> string) \<Rightarrow> SelectSide \<Rightarrow> string \<Rightarrow> FolderPair \<Rightarrow> FolderPair" where
  "updateRelPathsRecursion appendPath side parentRel (FolderPair ob fs ls ds) =
     (let p = appendPath parentRel (getItemName side ob)
      in FolderPair (setRelPath side p ob) fs ls
           (map (updateRelPathsRecursion appendPath side p) ds))"

definition propagateChangedItemName ::
  "(string \<Rightarrow> string \<Rightarrow> string) \<Rightarrow> SelectSide \<Rightarrow> string \<Rightarrow> string \<Rightarrow> FolderPair \<Rightarrow> FolderPair" where
  "propagateChangedItemName appendPath side parentRel itemNameOld x =
     (if itemNameL (folderObj x) = [] \<and> itemNameR (folderObj x) = [] then x
      else if itemNameOld \<noteq> getItemName side (folderObj x)
           then updateRelPathsRecursion appendPath side parentRel x
           else x)"

definition FolderPair_removeObjectLR :: "SelectSide \<Rightarrow> FolderObject \<Rightarrow> FolderObject" where
  "FolderPair_removeObjectLR side ob =
     (if side = SelectSide_left then ob\<lparr>folderAttrL := FolderAttributes_default\<rparr>
      else ob\<lparr>folderAttrR := FolderAttributes_default\<rparr>)"

text \<open>
  \<^verbatim>\<open>removeObject<side>\<close> on a folder. \<^verbatim>\<open>FolderPair::removeObjectL/R\<close> removes the side
  from every child before the folder's own relative path changes, so the children see
  the relative path the folder had before the call; the folder's own fields and its
  children are disjoint, so the model writes them side by side. The name of the folder
  is propagated last.
\<close>

fun FolderPair_removeObject ::
  "(string \<Rightarrow> string \<Rightarrow> string) \<Rightarrow> SelectSide \<Rightarrow> string \<Rightarrow> FolderPair \<Rightarrow> FolderPair" where
  "FolderPair_removeObject appendPath side parentRel (FolderPair ob fs ls ds) =
     propagateChangedItemName appendPath side parentRel (getItemName side ob)
       (FolderPair
          (FolderPair_notifySyncCfgChanged
             (FileSystemObject_removeObject side (FolderPair_removeObjectLR side) ob))
          (map (FilePair_removeObject side) fs)
          (map (SymlinkPair_removeObject side) ls)
          (map (FolderPair_removeObject appendPath side (getRelativePath side ob)) ds))"

definition FolderPair_setSyncedTo ::
  "(string \<Rightarrow> string \<Rightarrow> string) \<Rightarrow> SelectSide \<Rightarrow> string \<Rightarrow> bool \<Rightarrow> bool \<Rightarrow>
   string \<Rightarrow> string \<Rightarrow> FolderPair \<Rightarrow> FolderPair" where
  "FolderPair_setSyncedTo appendPath sideTrg itemName isSymlinkTrg isSymlinkSrc
       parentRelL parentRelR x =
     (let ob = folderObj x;
          trg = FolderAttributes_ctor isSymlinkTrg;
          src = FolderAttributes_ctor isSymlinkSrc;
          o1 = (if sideTrg = SelectSide_left then ob\<lparr>folderAttrL := trg\<rparr>
                else ob\<lparr>folderAttrR := trg\<rparr>);
          o2 = (if getOtherSide sideTrg = SelectSide_left then o1\<lparr>folderAttrL := src\<rparr>
                else o1\<lparr>folderAttrR := src\<rparr>);
          itemNameOldL = getItemName SelectSide_left o2;
          itemNameOldR = getItemName SelectSide_right o2;
          o3 = FolderPair_notifySyncCfgChanged (FileSystemObject_setSynced itemName o2);
          x1 = FolderPair o3 (subFiles x) (subLinks x) (subFolders x);
          x2 = propagateChangedItemName appendPath SelectSide_left parentRelL itemNameOldL x1
      in propagateChangedItemName appendPath SelectSide_right parentRelR itemNameOldR x2)"

text \<open>
  The constructor of \<^verbatim>\<open>FolderPair\<close>: \<^verbatim>\<open>ContainerObject(const FileSystemObject&)\<close> computes
  both relative paths from the parent's (the shortcut on equal string buffers returns an
  equal string).
\<close>

definition FolderPair_ctor ::
  "(string \<Rightarrow> string \<Rightarrow> string) \<Rightarrow> string \<Rightarrow> FolderAttributes \<Rightarrow> CompareFileResult \<Rightarrow>
   string \<Rightarrow> FolderAttributes \<Rightarrow> string \<Rightarrow> string \<Rightarrow> FolderPair" where
  "FolderPair_ctor appendPath nameL aL defaultCmpResult nameR aR parentRelL parentRelR =
     (let fso = FileSystemObject_ctor nameL nameR defaultCmpResult
      in FolderPair
           (FileSystemObject.extend fso
              (FolderObject.fields
                 (appendPath parentRelL (getItemName SelectSide_left fso))
                 (appendPath parentRelR (getItemName SelectSide_right fso))
                 None aL aR))
           [] [] [])"

text \<open>
  \<^verbatim>\<open>ContainerObject::addFile/addLink/addFolder\<close> append the new pair to the list of the
  container. The one-sided templates pass an empty name and default attributes for the
  missing side, with the category of the side that exists.
\<close>

type_synonym Children = "FilePair list \<times> SymlinkPair list \<times> FolderPair list"

definition childrenOf :: "FolderPair \<Rightarrow> Children" where
  "childrenOf x = (subFiles x, subLinks x, subFolders x)"

definition addFile ::
  "string \<Rightarrow> FileAttributes \<Rightarrow> CompareFileResult \<Rightarrow> string \<Rightarrow> FileAttributes \<Rightarrow>
   Children \<Rightarrow> Children" where
  "addFile nameL aL defaultCmpResult nameR aR c =
     (case c of (fs, ls, ds) \<Rightarrow> (fs @ [FilePair_ctor nameL aL defaultCmpResult nameR aR], ls, ds))"

definition addFileSide ::
  "SelectSide \<Rightarrow> string \<Rightarrow> FileAttributes \<Rightarrow> Children \<Rightarrow> Children" where
  "addFileSide side itemName attr =
     (if side = SelectSide_left
      then addFile itemName attr FILE_LEFT_SIDE_ONLY [] FileAttributes_default
      else addFile [] FileAttributes_default FILE_RIGHT_SIDE_ONLY itemName attr)"

definition addLink ::
  "string \<Rightarrow> LinkAttributes \<Rightarrow> CompareFileResult \<Rightarrow> string \<Rightarrow> LinkAttributes \<Rightarrow>
   Children \<Rightarrow> Children" where
  "addLink nameL aL defaultCmpResult nameR aR c =
     (case c of (fs, ls, ds) \<Rightarrow> (fs, ls @ [SymlinkPair_ctor nameL aL defaultCmpResult nameR aR], ds))"

definition addLinkSide ::
  "SelectSide \<Rightarrow> string \<Rightarrow> LinkAttributes \<Rightarrow> Children \<Rightarrow> Children" where
  "addLinkSide side itemName attr =
     (if side = SelectSide_left
      then addLink itemName attr FILE_LEFT_SIDE_ONLY [] LinkAttributes_default
      else addLink [] LinkAttributes_default FILE_RIGHT_SIDE_ONLY itemName attr)"

definition addFolder ::
  "(string \<Rightarrow> string \<Rightarrow> string) \<Rightarrow> string \<Rightarrow> FolderAttributes \<Rightarrow> CompareFileResult \<Rightarrow>
   string \<Rightarrow> FolderAttributes \<Rightarrow> string \<Rightarrow> string \<Rightarrow> Children \<Rightarrow> Children" where
  "addFolder appendPath nameL aL defaultCmpResult nameR aR parentRelL parentRelR c =
     (case c of (fs, ls, ds) \<Rightarrow>
        (fs, ls,
         ds @ [FolderPair_ctor appendPath nameL aL defaultCmpResult nameR aR
                 parentRelL parentRelR]))"

definition addFolderSide ::
  "(string \<Rightarrow> string \<Rightarrow> string) \<Rightarrow> SelectSide \<Rightarrow> string \<Rightarrow> FolderAttributes \<Rightarrow>
   string \<Rightarrow> string \<Rightarrow> Children \<Rightarrow> Children" where
  "addFolderSide appendPath side itemName attr =
     (if side = SelectSide_left
      then addFolder appendPath itemName attr FILE_LEFT_SIDE_ONLY [] FolderAttributes_default
      else addFolder appendPath [] FolderAttributes_default FILE_RIGHT_SIDE_ONLY itemName attr)"

subsection \<open>Traversal\<close>

text \<open>
  A callback is a function on the state of the caller (a log, a counter): it reads the
  node it is given. \<^verbatim>\<open>FileSystemObject::accept\<close> is virtual, so the object given to
  \<^verbatim>\<open>visitFSObject\<close> is one of three variants.
\<close>

datatype FSObjectVariant = File FilePair | Symlink SymlinkPair | Folder FolderPair

definition visitFSObject ::
  "FSObjectVariant \<Rightarrow> (FolderPair \<Rightarrow> 's \<Rightarrow> 's) \<Rightarrow> (FilePair \<Rightarrow> 's \<Rightarrow> 's) \<Rightarrow>
   (SymlinkPair \<Rightarrow> 's \<Rightarrow> 's) \<Rightarrow> 's \<Rightarrow> 's" where
  "visitFSObject fsObj onFolder onFile onSymlink s =
     (case fsObj of
        Folder folder \<Rightarrow> onFolder folder s
      | File file \<Rightarrow> onFile file s
      | Symlink symlink \<Rightarrow> onSymlink symlink s)"

text \<open>\<^verbatim>\<open>RecursiveObjectVisitor::execute\<close> on the children of a container.\<close>

fun execute ::
  "(FolderPair \<Rightarrow> 's \<Rightarrow> 's) \<Rightarrow> (FilePair \<Rightarrow> 's \<Rightarrow> 's) \<Rightarrow> (SymlinkPair \<Rightarrow> 's \<Rightarrow> 's) \<Rightarrow>
   FolderPair \<Rightarrow> 's \<Rightarrow> 's" where
  "execute onFolder onFile onSymlink (FolderPair ob fs ls ds) s =
     fold (\<lambda>subFolder t. execute onFolder onFile onSymlink subFolder (onFolder subFolder t)) ds
       (fold onSymlink ls (fold onFile fs s))"

definition BaseFolderPair_execute ::
  "(FolderPair \<Rightarrow> 's \<Rightarrow> 's) \<Rightarrow> (FilePair \<Rightarrow> 's \<Rightarrow> 's) \<Rightarrow> (SymlinkPair \<Rightarrow> 's \<Rightarrow> 's) \<Rightarrow>
   ('path, 'filter) BaseFolderPair \<Rightarrow> 's \<Rightarrow> 's" where
  "BaseFolderPair_execute onFolder onFile onSymlink b s =
     fold (\<lambda>subFolder t. execute onFolder onFile onSymlink subFolder (onFolder subFolder t))
       (baseSubFolders b)
       (fold onSymlink (baseSubLinks b) (fold onFile (baseSubFiles b) s))"

text \<open>
  \<^verbatim>\<open>visitFSObjectRecursively\<close> on an object: the item itself and, for a folder, what it
  contains.
\<close>

definition visitFSObjectRecursively ::
  "FSObjectVariant \<Rightarrow> (FolderPair \<Rightarrow> 's \<Rightarrow> 's) \<Rightarrow> (FilePair \<Rightarrow> 's \<Rightarrow> 's) \<Rightarrow>
   (SymlinkPair \<Rightarrow> 's \<Rightarrow> 's) \<Rightarrow> 's \<Rightarrow> 's" where
  "visitFSObjectRecursively fsObj onFolder onFile onSymlink s =
     visitFSObject fsObj
       (\<lambda>folder t. execute onFolder onFile onSymlink folder (onFolder folder t))
       onFile onSymlink s"

text \<open>
  The order as the specification words it: at each level all files, then all symlinks,
  then each sub-folder followed at once by what it contains.
\<close>

fun visitOrder :: "FolderPair \<Rightarrow> FSObjectVariant list" where
  "visitOrder (FolderPair ob fs ls ds) =
     map File fs @ map Symlink ls @ concat (map (\<lambda>d. Folder d # visitOrder d) ds)"

definition BaseFolderPair_visitOrder :: "('path, 'filter) BaseFolderPair \<Rightarrow> FSObjectVariant list" where
  "BaseFolderPair_visitOrder b =
     map File (baseSubFiles b) @ map Symlink (baseSubLinks b) @
       concat (map (\<lambda>d. Folder d # visitOrder d) (baseSubFolders b))"

subsection \<open>The life of the registry\<close>

datatype ObjectEvent = Constructed ObjectId | Destroyed ObjectId

fun ObjectMgr_step :: "ObjectEvent \<Rightarrow> ObjectId set \<Rightarrow> ObjectId set" where
  "ObjectMgr_step (Constructed a) activeObjects = ObjectMgr_ctor a activeObjects"
| "ObjectMgr_step (Destroyed a) activeObjects = ObjectMgr_dtor a activeObjects"

definition activeObjectsAfter :: "ObjectEvent list \<Rightarrow> ObjectId set" where
  "activeObjectsAfter events = fold ObjectMgr_step events {}"

text \<open>
  An object is alive after a history when its last event is its construction. The
  history is read from its end.
\<close>

fun aliveRev :: "ObjectId \<Rightarrow> ObjectEvent list \<Rightarrow> bool" where
  "aliveRev a [] = False"
| "aliveRev a (Constructed b # earlier) = (if a = b then True else aliveRev a earlier)"
| "aliveRev a (Destroyed b # earlier) = (if a = b then False else aliveRev a earlier)"

definition alive :: "ObjectId \<Rightarrow> ObjectEvent list \<Rightarrow> bool" where
  "alive a events = aliveRev a (rev events)"

subsection \<open>Objects inside a tree\<close>

text \<open>
  The code holds a reference to an object; the model names the object by the indices of
  the sub-folders that lead to its container and by its place in one of the three lists
  of that container. A function that ends in \<^verbatim>\<open>notifySyncCfgChanged()\<close> is run with
  \<open>notify = True\<close>: the call goes from the object to its parent, from a folder to the
  parent of the folder, and stops at the \<^verbatim>\<open>BaseFolderPair\<close>, so every folder on the way
  has its buffer reset.
\<close>

datatype ObjRef = FileRef nat | LinkRef nat | FolderRef nat

fun validRef :: "ObjRef \<Rightarrow> Children \<Rightarrow> bool" where
  "validRef (FileRef i) (fs, ls, ds) = (i < length fs)"
| "validRef (LinkRef i) (fs, ls, ds) = (i < length ls)"
| "validRef (FolderRef i) (fs, ls, ds) = (i < length ds)"

fun validPath :: "nat list \<Rightarrow> Children \<Rightarrow> bool" where
  "validPath [] c = True"
| "validPath (i # path) (fs, ls, ds) = (i < length ds \<and> validPath path (childrenOf (ds ! i)))"

fun validTarget :: "nat list \<Rightarrow> ObjRef \<Rightarrow> Children \<Rightarrow> bool" where
  "validTarget [] r c = validRef r c"
| "validTarget (i # path) r (fs, ls, ds) =
     (i < length ds \<and> validTarget path r (childrenOf (ds ! i)))"


fun atPath ::
  "bool \<Rightarrow> nat list \<Rightarrow> (string \<Rightarrow> string \<Rightarrow> Children \<Rightarrow> Children) \<Rightarrow>
   string \<Rightarrow> string \<Rightarrow> Children \<Rightarrow> Children" where
  "atPath notify [] g parentRelL parentRelR c = g parentRelL parentRelR c"
| "atPath notify (i # path) g parentRelL parentRelR (fs, ls, ds) =
     (fs, ls,
      ds[i := (case ds ! i of FolderPair ob fs1 ls1 ds1 \<Rightarrow>
                 (case atPath notify path g (relPathL ob) (relPathR ob) (fs1, ls1, ds1) of
                    (fs2, ls2, ds2) \<Rightarrow>
                      FolderPair (if notify then FolderPair_notifySyncCfgChanged ob else ob)
                        fs2 ls2 ds2))])"

fun onObject ::
  "(FilePair \<Rightarrow> FilePair) \<Rightarrow> (SymlinkPair \<Rightarrow> SymlinkPair) \<Rightarrow>
   (string \<Rightarrow> string \<Rightarrow> FolderPair \<Rightarrow> FolderPair) \<Rightarrow> ObjRef \<Rightarrow>
   string \<Rightarrow> string \<Rightarrow> Children \<Rightarrow> Children" where
  "onObject onFile onSymlink onFolder (FileRef i) parentRelL parentRelR (fs, ls, ds) =
     (fs[i := onFile (fs ! i)], ls, ds)"
| "onObject onFile onSymlink onFolder (LinkRef i) parentRelL parentRelR (fs, ls, ds) =
     (fs, ls[i := onSymlink (ls ! i)], ds)"
| "onObject onFile onSymlink onFolder (FolderRef i) parentRelL parentRelR (fs, ls, ds) =
     (fs, ls, ds[i := onFolder parentRelL parentRelR (ds ! i)])"

definition onFolderObj :: "(FolderObject \<Rightarrow> FolderObject) \<Rightarrow> FolderPair \<Rightarrow> FolderPair" where
  "onFolderObj f x = FolderPair (f (folderObj x)) (subFiles x) (subLinks x) (subFolders x)"

definition baseChildren :: "('path, 'filter) BaseFolderPair \<Rightarrow> Children" where
  "baseChildren b = (baseSubFiles b, baseSubLinks b, baseSubFolders b)"

definition setBaseChildren ::
  "Children \<Rightarrow> ('path, 'filter) BaseFolderPair \<Rightarrow> ('path, 'filter) BaseFolderPair" where
  "setBaseChildren c b =
     (case c of (fs, ls, ds) \<Rightarrow> b\<lparr>baseSubFiles := fs, baseSubLinks := ls, baseSubFolders := ds\<rparr>)"

text \<open>
  A path that leaves the tree names no object (there is no such reference in the
  program): the tree is returned as it is.
\<close>

definition atContainer ::
  "bool \<Rightarrow> nat list \<Rightarrow> (string \<Rightarrow> string \<Rightarrow> Children \<Rightarrow> Children) \<Rightarrow>
   ('path, 'filter) BaseFolderPair \<Rightarrow> ('path, 'filter) BaseFolderPair" where
  "atContainer notify path g b =
     (if validPath path (baseChildren b)
      then setBaseChildren
             (atPath notify path g (baseRelPathL b) (baseRelPathR b) (baseChildren b)) b
      else b)"

definition atObject ::
  "bool \<Rightarrow> nat list \<Rightarrow> ObjRef \<Rightarrow> (FilePair \<Rightarrow> FilePair) \<Rightarrow> (SymlinkPair \<Rightarrow> SymlinkPair) \<Rightarrow>
   (string \<Rightarrow> string \<Rightarrow> FolderPair \<Rightarrow> FolderPair) \<Rightarrow>
   ('path, 'filter) BaseFolderPair \<Rightarrow> ('path, 'filter) BaseFolderPair" where
  "atObject notify path r onFile onSymlink onFolder b =
     (if validTarget path r (baseChildren b)
      then setBaseChildren
             (atPath notify path (onObject onFile onSymlink onFolder r)
                (baseRelPathL b) (baseRelPathR b) (baseChildren b)) b
      else b)"





subsection \<open>The sync operation of a folder and its buffer\<close>

text \<open>
  Modelled from the spec: \<^verbatim>\<open>FileSystemObject::getSyncOperation\<close>, whose body
  (file\_hierarchy.cpp) is missing. Section 4.4: an inactive entity does nothing; a
  conflict description gives the unresolved conflict; category Equal does nothing; an
  entity on one side only is created on the missing side when the direction fills that
  side and deleted on its own side when the direction points the other way; for the
  other categories direction Left updates the right side from the left one, and Right
  the left one; direction None does nothing. A direction names the side whose state
  overwrites the other.
\<close>

definition FileSystemObject_getSyncOperation :: "'a FileSystemObject_scheme \<Rightarrow> SyncOperation" where
  "FileSystemObject_getSyncOperation x =
     (if \<not> selectedForSync x then SO_DO_NOTHING
      else if syncDirectionConflict x \<noteq> [] then SO_UNRESOLVED_CONFLICT
      else if cmpResult x = FILE_EQUAL then SO_DO_NOTHING
      else if cmpResult x = FILE_LEFT_SIDE_ONLY then
        (case syncDir x of
           SyncDirection_left \<Rightarrow> SO_CREATE SelectSide_right
         | SyncDirection_right \<Rightarrow> SO_DELETE SelectSide_left
         | SyncDirection_none \<Rightarrow> SO_DO_NOTHING)
      else if cmpResult x = FILE_RIGHT_SIDE_ONLY then
        (case syncDir x of
           SyncDirection_left \<Rightarrow> SO_DELETE SelectSide_right
         | SyncDirection_right \<Rightarrow> SO_CREATE SelectSide_left
         | SyncDirection_none \<Rightarrow> SO_DO_NOTHING)
      else
        (case syncDir x of
           SyncDirection_left \<Rightarrow> SO_UPDATE SelectSide_right
         | SyncDirection_right \<Rightarrow> SO_UPDATE SelectSide_left
         | SyncDirection_none \<Rightarrow> SO_DO_NOTHING))"

text \<open>
  Modelled from the spec: the recomputation inside \<^verbatim>\<open>FolderPair::getSyncOperation\<close>
  (body missing). Section 4.4: ``Folder operation = DoNothing if no descendant requires
  action, else the single action implied by its own category/direction as above, except
  existence-only folders (LeftOnly/RightOnly) which resolve exactly like files.''
  \<open>descendantOperations\<close> lists the operation of every entity below a folder, a
  sub-folder with the operation this rule gives it; a descendant requires action when
  its operation is not DoNothing.
\<close>

definition folderRule :: "FolderObject \<Rightarrow> SyncOperation list \<Rightarrow> SyncOperation" where
  "folderRule ob descendants =
     (if cmpResult ob = FILE_LEFT_SIDE_ONLY \<or> cmpResult ob = FILE_RIGHT_SIDE_ONLY
      then FileSystemObject_getSyncOperation ob
      else if list_ex (\<lambda>op. op \<noteq> SO_DO_NOTHING) descendants
      then FileSystemObject_getSyncOperation ob
      else SO_DO_NOTHING)"

fun descendantOperations :: "FolderPair \<Rightarrow> SyncOperation list" where
  "descendantOperations (FolderPair ob fs ls ds) =
     map FileSystemObject_getSyncOperation fs @ map FileSystemObject_getSyncOperation ls @
       concat (map (\<lambda>d. folderRule (folderObj d) (descendantOperations d) #
                          descendantOperations d) ds)"

definition FolderPair_recompute :: "FolderPair \<Rightarrow> SyncOperation" where
  "FolderPair_recompute x = folderRule (folderObj x) (descendantOperations x)"

text \<open>
  Modelled from the spec: \<^verbatim>\<open>FolderPair::getSyncOperation\<close> (body missing). Sections 4.4
  and 9: the resolved operation of a folder is stored with the folder; a stored value is
  returned as it is, and a reset buffer is filled by the recomputation. The header
  declares the buffer \<^verbatim>\<open>mutable std::optional<SyncOperation> syncOpBuffered_\<close>. The
  recomputation is the argument \<open>recompute\<close>; the result is the operation and the folder
  with its buffer filled.
\<close>

definition FolderPair_getSyncOperation ::
  "(FolderPair \<Rightarrow> SyncOperation) \<Rightarrow> FolderPair \<Rightarrow> SyncOperation \<times> FolderPair" where
  "FolderPair_getSyncOperation recompute x =
     (case syncOpBuffered (folderObj x) of
        Some op \<Rightarrow> (op, x)
      | None \<Rightarrow>
          (recompute x, onFolderObj (\<lambda>ob. ob\<lparr>syncOpBuffered := Some (recompute x)\<rparr>) x))"

subsection \<open>Sequences of operations on a tree\<close>

text \<open>
  The operations of the header on the tree below one \<^verbatim>\<open>BaseFolderPair\<close>, one constructor
  per member function. \<^verbatim>\<open>setSynced\<close> is protected; it is reached through the three
  \<^verbatim>\<open>setSyncedTo\<close>. \<^verbatim>\<open>flip\<close> is public on the \<^verbatim>\<open>BaseFolderPair\<close> only.
\<close>

datatype Command =
    AddFile "nat list" string FileAttributes CompareFileResult string FileAttributes
  | AddLink "nat list" string LinkAttributes CompareFileResult string LinkAttributes
  | AddFolder "nat list" string FolderAttributes CompareFileResult string FolderAttributes
  | SetSyncDir "nat list" ObjRef SyncDirection
  | SetSyncDirConflict "nat list" ObjRef string
  | SetActive "nat list" ObjRef bool
  | RemoveObject "nat list" ObjRef SelectSide
  | FileSetSyncedTo "nat list" nat SelectSide string
      "64 word" "64 word" "64 word" "64 word" "64 word" bool bool
  | LinkSetSyncedTo "nat list" nat SelectSide string "64 word" "64 word"
  | FolderSetSyncedTo "nat list" nat SelectSide string bool bool
  | SetCategory "nat list" ObjRef SettableCategory
  | SetCategoryConflict "nat list" ObjRef string
  | SetCategoryDiffMetadata "nat list" ObjRef string
  | SetMoveRef "nat list" nat "ObjectId option"
  | GetSyncOperation "nat list" nat
  | Flip

fun exec ::
  "(string \<Rightarrow> string \<Rightarrow> string) \<Rightarrow> (FolderPair \<Rightarrow> SyncOperation) \<Rightarrow> Command \<Rightarrow>
   ('path, 'filter) BaseFolderPair \<Rightarrow> ('path, 'filter) BaseFolderPair" where
  "exec appendPath recompute (AddFile path nameL aL c nameR aR) b =
     atContainer True path (\<lambda>parentRelL parentRelR. addFile nameL aL c nameR aR) b"
| "exec appendPath recompute (AddLink path nameL aL c nameR aR) b =
     atContainer True path (\<lambda>parentRelL parentRelR. addLink nameL aL c nameR aR) b"
| "exec appendPath recompute (AddFolder path nameL aL c nameR aR) b =
     atContainer True path (addFolder appendPath nameL aL c nameR aR) b"
| "exec appendPath recompute (SetSyncDir path r newDir) b =
     atObject True path r
       (FileSystemObject_setSyncDir newDir) (FileSystemObject_setSyncDir newDir)
       (\<lambda>parentRelL parentRelR.
          onFolderObj (\<lambda>ob. FolderPair_notifySyncCfgChanged (FileSystemObject_setSyncDir newDir ob)))
       b"
| "exec appendPath recompute (SetSyncDirConflict path r description) b =
     atObject True path r
       (FileSystemObject_setSyncDirConflict description)
       (FileSystemObject_setSyncDirConflict description)
       (\<lambda>parentRelL parentRelR.
          onFolderObj (\<lambda>ob. FolderPair_notifySyncCfgChanged
                              (FileSystemObject_setSyncDirConflict description ob)))
       b"
| "exec appendPath recompute (SetActive path r active) b =
     atObject True path r
       (FileSystemObject_setActive active) (FileSystemObject_setActive active)
       (\<lambda>parentRelL parentRelR.
          onFolderObj (\<lambda>ob. FolderPair_notifySyncCfgChanged (FileSystemObject_setActive active ob)))
       b"
| "exec appendPath recompute (RemoveObject path r side) b =
     atObject True path r
       (FilePair_removeObject side) (SymlinkPair_removeObject side)
       (\<lambda>parentRelL parentRelR.
          FolderPair_removeObject appendPath side (selectParam side parentRelL parentRelR))
       b"
| "exec appendPath recompute
     (FileSetSyncedTo path i sideTrg itemName sz timeTrg timeSrc printTrg printSrc symTrg symSrc) b =
     atObject True path (FileRef i)
       (FilePair_setSyncedTo sideTrg itemName sz timeTrg timeSrc printTrg printSrc symTrg symSrc)
       (\<lambda>l. l) (\<lambda>parentRelL parentRelR x. x) b"
| "exec appendPath recompute (LinkSetSyncedTo path i sideTrg itemName timeTrg timeSrc) b =
     atObject True path (LinkRef i)
       (\<lambda>f. f) (SymlinkPair_setSyncedTo sideTrg itemName timeTrg timeSrc)
       (\<lambda>parentRelL parentRelR x. x) b"
| "exec appendPath recompute (FolderSetSyncedTo path i sideTrg itemName symTrg symSrc) b =
     atObject True path (FolderRef i)
       (\<lambda>f. f) (\<lambda>l. l) (FolderPair_setSyncedTo appendPath sideTrg itemName symTrg symSrc) b"
| "exec appendPath recompute (SetCategory path r res) b =
     atObject False path r (setCategory res) (setCategory res)
       (\<lambda>parentRelL parentRelR. onFolderObj (setCategory res)) b"
| "exec appendPath recompute (SetCategoryConflict path r description) b =
     atObject False path r (setCategoryConflict description) (setCategoryConflict description)
       (\<lambda>parentRelL parentRelR. onFolderObj (setCategoryConflict description)) b"
| "exec appendPath recompute (SetCategoryDiffMetadata path r description) b =
     atObject False path r
       (setCategoryDiffMetadata description) (setCategoryDiffMetadata description)
       (\<lambda>parentRelL parentRelR. onFolderObj (setCategoryDiffMetadata description)) b"
| "exec appendPath recompute (SetMoveRef path i refId) b =
     atObject False path (FileRef i) (setMoveRef refId)
       (\<lambda>l. l) (\<lambda>parentRelL parentRelR x. x) b"
| "exec appendPath recompute (GetSyncOperation path i) b =
     atObject False path (FolderRef i) (\<lambda>f. f) (\<lambda>l. l)
       (\<lambda>parentRelL parentRelR x. snd (FolderPair_getSyncOperation recompute x)) b"
| "exec appendPath recompute Flip b = BaseFolderPair_flip b"



subsection \<open>Every entity of a tree\<close>

text \<open>The \<^verbatim>\<open>FileSystemObject\<close> part of every entity below a folder, the folder first.\<close>

fun fsObjects :: "FolderPair \<Rightarrow> FileSystemObject list" where
  "fsObjects (FolderPair ob fs ls ds) =
     FileSystemObject.truncate ob # map FileSystemObject.truncate fs @
       map FileSystemObject.truncate ls @ concat (map fsObjects ds)"

definition BaseFolderPair_fsObjects :: "('path, 'filter) BaseFolderPair \<Rightarrow> FileSystemObject list" where
  "BaseFolderPair_fsObjects b =
     map FileSystemObject.truncate (baseSubFiles b) @
       map FileSystemObject.truncate (baseSubLinks b) @
       concat (map fsObjects (baseSubFolders b))"

text \<open>
  The class invariant the header words at \<^verbatim>\<open>syncDir_\<close>: ``syncDirectionConflict is empty
  or syncDir == NONE''.
\<close>

definition dirConflictOk :: "'a FileSystemObject_scheme \<Rightarrow> bool" where
  "dirConflictOk x = (syncDirectionConflict x = [] \<or> syncDir x = SyncDirection_none)"

fun treeOk :: "FolderPair \<Rightarrow> bool" where
  "treeOk (FolderPair ob fs ls ds) =
     (dirConflictOk ob \<and> list_all dirConflictOk fs \<and> list_all dirConflictOk ls \<and>
      list_all treeOk ds)"

definition childrenOk :: "Children \<Rightarrow> bool" where
  "childrenOk c =
     (case c of (fs, ls, ds) \<Rightarrow>
        list_all dirConflictOk fs \<and> list_all dirConflictOk ls \<and> list_all treeOk ds)"

text \<open>The same tree with the buffer of every folder reset.\<close>

fun clearSyncOpBuffers :: "FolderPair \<Rightarrow> FolderPair" where
  "clearSyncOpBuffers (FolderPair ob fs ls ds) =
     FolderPair (FolderPair_notifySyncCfgChanged ob) fs ls (map clearSyncOpBuffers ds)"




subsection \<open>A tree for the scenario of the buffer\<close>

text \<open>
  \<open>scenario_tree\<close>: a folder \<open>F\<close> that exists on the left only, with direction Left, and
  in it one file \<open>a.txt\<close> that exists on the left only, with direction Left.
  \<open>scenario_update_tree\<close>: the same file in a folder that exists on both sides under
  names that differ, with direction Left. \<open>scenario_nested_tree\<close>: a folder \<open>T\<close> that
  holds a folder \<open>D\<close> that holds one file with different content. In each tree the sync
  operation of every folder has been asked for once, so the buffers are filled.
  \<open>scenario_appendPath\<close> joins two paths with a separator.
\<close>

definition scenario_appendPath :: "string \<Rightarrow> string \<Rightarrow> string" where
  "scenario_appendPath basePath relPath =
     (if basePath = [] then relPath else if relPath = [] then basePath
      else basePath @ ''/'' @ relPath)"




text \<open>A tree built by a sequence of operations that set conflicts and directions.\<close>

definition trace_tree :: "(string, unit) BaseFolderPair" where
  "trace_tree =
     fold (exec scenario_appendPath FolderPair_recompute)
       [AddFile [] ''a.txt'' (FileAttributes_ctor 1 2 3 False) FILE_DIFFERENT_CONTENT
          ''a.txt'' (FileAttributes_ctor 4 5 6 False),
        SetSyncDir [] (FileRef 0) SyncDirection_left,
        SetSyncDirConflict [] (FileRef 0) ''changed on both sides'',
        AddFolder [] ''d'' (FolderAttributes_ctor False) FILE_EQUAL
          ''d'' (FolderAttributes_ctor False),
        AddLink [0] [] LinkAttributes_default FILE_RIGHT_SIDE_ONLY ''l'' (LinkAttributes_ctor 7),
        SetSyncDirConflict [0] (LinkRef 0) ''cannot decide'',
        SetSyncDir [0] (LinkRef 0) SyncDirection_right,
        Flip]
       (BaseFolderPair_ctor ''/left'' BaseFolderStatus_existing
          ''/right'' BaseFolderStatus_notExisting () CompareVariant_content 2 [])"

section \<open>Properties\<close>

subsection \<open>Flip\<close>

lemma flipCategory_involution: "flipCategory (flipCategory c) = c"
  by (cases c) simp_all

lemma FilePair_flip_flip: "FilePair_flip (FilePair_flip f) = f"
  by (simp add: FilePair_flip_def FileSystemObject_flip_def flipCategory_involution)

lemma SymlinkPair_flip_flip: "SymlinkPair_flip (SymlinkPair_flip l) = l"
  by (simp add: SymlinkPair_flip_def FileSystemObject_flip_def flipCategory_involution)

lemma FolderPair_flip_flip: "FolderPair_flip (FolderPair_flip x) = clearSyncOpBuffers x"
proof (induction x)
  case (FolderPair ob fs ls ds)
  have "map (FolderPair_flip \<circ> FolderPair_flip) ds = map clearSyncOpBuffers ds"
    using FolderPair.IH by simp
  then show ?case
    by (simp add: FilePair_flip_flip SymlinkPair_flip_flip comp_def
        FolderPair_notifySyncCfgChanged_def FileSystemObject_flip_def flipCategory_involution)
qed

lemma FolderPair_flip_clearSyncOpBuffers:
  "FolderPair_flip (clearSyncOpBuffers x) = FolderPair_flip x"
proof (induction x)
  case (FolderPair ob fs ls ds)
  have sub: "map (\<lambda>d. FolderPair_flip (clearSyncOpBuffers d)) ds = map FolderPair_flip ds"
    using FolderPair.IH by simp
  show ?case
    by (simp add: comp_def FolderPair_notifySyncCfgChanged_def FileSystemObject_flip_def sub)
qed

lemma fsObjects_clearSyncOpBuffers: "fsObjects (clearSyncOpBuffers x) = fsObjects x"
proof (induction x)
  case (FolderPair ob fs ls ds)
  have sub: "map (\<lambda>d. fsObjects (clearSyncOpBuffers d)) ds = map fsObjects ds"
    using FolderPair.IH by simp
  show ?case
    by (simp add: comp_def FolderPair_notifySyncCfgChanged_def FileSystemObject.truncate_def sub)
qed

text \<open>
  C2. Flipping a \<^verbatim>\<open>BaseFolderPair\<close> twice gives back the tree: every item name,
  attribute, relative path, category, sync direction, conflict description, active flag,
  root path and root status has its first value again. The one field that is not one of
  these, the buffered sync operation of a folder, is reset by the notification that each
  flip sends: the result is the first tree with every buffer reset, the entities of the
  two trees are equal, and on a tree that a flip has produced the round trip is the
  identity.
\<close>

theorem flip_round_trip:
  "BaseFolderPair_flip (BaseFolderPair_flip b) =
     b\<lparr>baseSubFolders := map clearSyncOpBuffers (baseSubFolders b)\<rparr> \<and>
   BaseFolderPair_fsObjects (BaseFolderPair_flip (BaseFolderPair_flip b)) =
     BaseFolderPair_fsObjects b \<and>
   BaseFolderPair_flip (BaseFolderPair_flip (BaseFolderPair_flip b)) = BaseFolderPair_flip b"
proof -
  have twice: "BaseFolderPair_flip (BaseFolderPair_flip b) =
      b\<lparr>baseSubFolders := map clearSyncOpBuffers (baseSubFolders b)\<rparr>"
    by (simp add: BaseFolderPair_flip_def FilePair_flip_flip SymlinkPair_flip_flip
        FolderPair_flip_flip comp_def)
  have objs: "BaseFolderPair_fsObjects (BaseFolderPair_flip (BaseFolderPair_flip b)) =
      BaseFolderPair_fsObjects b"
    by (simp only: twice)
      (simp add: BaseFolderPair_fsObjects_def comp_def fsObjects_clearSyncOpBuffers)
  have thrice: "BaseFolderPair_flip (BaseFolderPair_flip (BaseFolderPair_flip b)) =
      BaseFolderPair_flip b"
    by (simp only: twice)
      (simp add: BaseFolderPair_flip_def comp_def FolderPair_flip_clearSyncOpBuffers)
  from twice objs thrice show ?thesis by (intro conjI)
qed

lemma truncate_flip:
  "FileSystemObject.truncate (FileSystemObject_flip x) =
     FileSystemObject_flip (FileSystemObject.truncate x)"
  by (simp add: FileSystemObject.truncate_def FileSystemObject_flip_def)

lemma truncate_FilePair_flip:
  "FileSystemObject.truncate (FilePair_flip x) =
     FileSystemObject_flip (FileSystemObject.truncate x)"
  by (simp add: FileSystemObject.truncate_def FileSystemObject_flip_def FilePair_flip_def)

lemma truncate_SymlinkPair_flip:
  "FileSystemObject.truncate (SymlinkPair_flip x) =
     FileSystemObject_flip (FileSystemObject.truncate x)"
  by (simp add: FileSystemObject.truncate_def FileSystemObject_flip_def SymlinkPair_flip_def)

lemma truncate_FolderObject_flip:
  "FileSystemObject.truncate (folderObj (FolderPair_flip d)) =
     FileSystemObject_flip (FileSystemObject.truncate (folderObj d))"
  by (cases d) (simp add: FileSystemObject.truncate_def FileSystemObject_flip_def
      FolderPair_notifySyncCfgChanged_def)

lemma fsObjects_flip: "fsObjects (FolderPair_flip x) = map FileSystemObject_flip (fsObjects x)"
proof (induction x)
  case (FolderPair ob fs ls ds)
  have sub: "map (\<lambda>x. fsObjects (FolderPair_flip x)) ds =
      map (\<lambda>x. map FileSystemObject_flip (fsObjects x)) ds"
    using FolderPair.IH by simp
  have hd: "FileSystemObject.truncate (folderObj (FolderPair_flip (FolderPair ob fs ls ds))) =
      FileSystemObject_flip (FileSystemObject.truncate ob)"
    by (simp only: truncate_FolderObject_flip FolderPair.sel)
  have "fsObjects (FolderPair_flip (FolderPair ob fs ls ds)) =
      FileSystemObject.truncate (folderObj (FolderPair_flip (FolderPair ob fs ls ds))) #
      map FileSystemObject.truncate (map FilePair_flip fs) @
      map FileSystemObject.truncate (map SymlinkPair_flip ls) @
      concat (map fsObjects (map FolderPair_flip ds))"
    by simp
  also have "\<dots> = map FileSystemObject_flip (fsObjects (FolderPair ob fs ls ds))"
    by (simp only: hd) (simp add: truncate_FilePair_flip truncate_SymlinkPair_flip
        comp_def map_concat sub)
  finally show ?case .
qed

text \<open>
  C3. What one flip does: the names of the two sides change places, and so do the
  attributes and the relative paths, in every file, symlink and folder of the subtree;
  the category goes from LeftOnly to RightOnly, from LeftNewer to RightNewer and back,
  and stays as it is otherwise; at the \<^verbatim>\<open>BaseFolderPair\<close> the root paths and the root
  statuses change places; the stored sync direction (and with it the conflict
  description and the active flag) of every entity stays as it is.
\<close>

theorem flip_semantics:
  "itemNameL (FileSystemObject_flip x) = itemNameR x \<and>
   itemNameR (FileSystemObject_flip x) = itemNameL x \<and>
   cmpResult (FileSystemObject_flip x) =
     (case cmpResult x of
        FILE_LEFT_SIDE_ONLY \<Rightarrow> FILE_RIGHT_SIDE_ONLY
      | FILE_RIGHT_SIDE_ONLY \<Rightarrow> FILE_LEFT_SIDE_ONLY
      | FILE_LEFT_NEWER \<Rightarrow> FILE_RIGHT_NEWER
      | FILE_RIGHT_NEWER \<Rightarrow> FILE_LEFT_NEWER
      | FILE_EQUAL \<Rightarrow> FILE_EQUAL
      | FILE_DIFFERENT_CONTENT \<Rightarrow> FILE_DIFFERENT_CONTENT
      | FILE_DIFFERENT_METADATA \<Rightarrow> FILE_DIFFERENT_METADATA
      | FILE_CONFLICT \<Rightarrow> FILE_CONFLICT) \<and>
   syncDir (FileSystemObject_flip x) = syncDir x \<and>
   syncDirectionConflict (FileSystemObject_flip x) = syncDirectionConflict x \<and>
   selectedForSync (FileSystemObject_flip x) = selectedForSync x \<and>
   FileSystemObject.truncate (FilePair_flip f) = FileSystemObject_flip (FileSystemObject.truncate f) \<and>
   fileAttrL (FilePair_flip f) = fileAttrR f \<and> fileAttrR (FilePair_flip f) = fileAttrL f \<and>
   FileSystemObject.truncate (SymlinkPair_flip l) = FileSystemObject_flip (FileSystemObject.truncate l) \<and>
   linkAttrL (SymlinkPair_flip l) = linkAttrR l \<and> linkAttrR (SymlinkPair_flip l) = linkAttrL l \<and>
   FileSystemObject.truncate (folderObj (FolderPair_flip d)) =
     FileSystemObject_flip (FileSystemObject.truncate (folderObj d)) \<and>
   folderAttrL (folderObj (FolderPair_flip d)) = folderAttrR (folderObj d) \<and>
   folderAttrR (folderObj (FolderPair_flip d)) = folderAttrL (folderObj d) \<and>
   relPathL (folderObj (FolderPair_flip d)) = relPathR (folderObj d) \<and>
   relPathR (folderObj (FolderPair_flip d)) = relPathL (folderObj d) \<and>
   subFiles (FolderPair_flip d) = map FilePair_flip (subFiles d) \<and>
   subLinks (FolderPair_flip d) = map SymlinkPair_flip (subLinks d) \<and>
   subFolders (FolderPair_flip d) = map FolderPair_flip (subFolders d) \<and>
   fsObjects (FolderPair_flip d) = map FileSystemObject_flip (fsObjects d) \<and>
   baseSubFiles (BaseFolderPair_flip b) = map FilePair_flip (baseSubFiles b) \<and>
   baseSubLinks (BaseFolderPair_flip b) = map SymlinkPair_flip (baseSubLinks b) \<and>
   baseSubFolders (BaseFolderPair_flip b) = map FolderPair_flip (baseSubFolders b) \<and>
   baseRelPathL (BaseFolderPair_flip b) = baseRelPathR b \<and>
   baseRelPathR (BaseFolderPair_flip b) = baseRelPathL b \<and>
   folderPathLeft (BaseFolderPair_flip b) = folderPathRight b \<and>
   folderPathRight (BaseFolderPair_flip b) = folderPathLeft b \<and>
   folderStatusLeft (BaseFolderPair_flip b) = folderStatusRight b \<and>
   folderStatusRight (BaseFolderPair_flip b) = folderStatusLeft b \<and>
   BaseFolderPair_fsObjects (BaseFolderPair_flip b) =
     map FileSystemObject_flip (BaseFolderPair_fsObjects b)"
proof -
  have fso: "cmpResult (FileSystemObject_flip x) =
     (case cmpResult x of
        FILE_LEFT_SIDE_ONLY \<Rightarrow> FILE_RIGHT_SIDE_ONLY
      | FILE_RIGHT_SIDE_ONLY \<Rightarrow> FILE_LEFT_SIDE_ONLY
      | FILE_LEFT_NEWER \<Rightarrow> FILE_RIGHT_NEWER
      | FILE_RIGHT_NEWER \<Rightarrow> FILE_LEFT_NEWER
      | FILE_EQUAL \<Rightarrow> FILE_EQUAL
      | FILE_DIFFERENT_CONTENT \<Rightarrow> FILE_DIFFERENT_CONTENT
      | FILE_DIFFERENT_METADATA \<Rightarrow> FILE_DIFFERENT_METADATA
      | FILE_CONFLICT \<Rightarrow> FILE_CONFLICT)"
    by (cases "cmpResult x") (simp_all add: FileSystemObject_flip_def)
  have fields: "itemNameL (FileSystemObject_flip x) = itemNameR x"
    "itemNameR (FileSystemObject_flip x) = itemNameL x"
    "syncDir (FileSystemObject_flip x) = syncDir x"
    "syncDirectionConflict (FileSystemObject_flip x) = syncDirectionConflict x"
    "selectedForSync (FileSystemObject_flip x) = selectedForSync x"
    by (simp_all add: FileSystemObject_flip_def)
  have filep: "fileAttrL (FilePair_flip f) = fileAttrR f" "fileAttrR (FilePair_flip f) = fileAttrL f"
    by (simp_all add: FilePair_flip_def FileSystemObject_flip_def)
  have linkp: "linkAttrL (SymlinkPair_flip l) = linkAttrR l" "linkAttrR (SymlinkPair_flip l) = linkAttrL l"
    by (simp_all add: SymlinkPair_flip_def FileSystemObject_flip_def)
  have folderp: "FileSystemObject.truncate (folderObj (FolderPair_flip d)) =
       FileSystemObject_flip (FileSystemObject.truncate (folderObj d))"
    "folderAttrL (folderObj (FolderPair_flip d)) = folderAttrR (folderObj d)"
    "folderAttrR (folderObj (FolderPair_flip d)) = folderAttrL (folderObj d)"
    "relPathL (folderObj (FolderPair_flip d)) = relPathR (folderObj d)"
    "relPathR (folderObj (FolderPair_flip d)) = relPathL (folderObj d)"
    "subFiles (FolderPair_flip d) = map FilePair_flip (subFiles d)"
    "subLinks (FolderPair_flip d) = map SymlinkPair_flip (subLinks d)"
    "subFolders (FolderPair_flip d) = map FolderPair_flip (subFolders d)"
    by (cases d; simp add: FileSystemObject.truncate_def FileSystemObject_flip_def
        FolderPair_notifySyncCfgChanged_def)+
  have base: "baseSubFiles (BaseFolderPair_flip b) = map FilePair_flip (baseSubFiles b)"
    "baseSubLinks (BaseFolderPair_flip b) = map SymlinkPair_flip (baseSubLinks b)"
    "baseSubFolders (BaseFolderPair_flip b) = map FolderPair_flip (baseSubFolders b)"
    "baseRelPathL (BaseFolderPair_flip b) = baseRelPathR b"
    "baseRelPathR (BaseFolderPair_flip b) = baseRelPathL b"
    "folderPathLeft (BaseFolderPair_flip b) = folderPathRight b"
    "folderPathRight (BaseFolderPair_flip b) = folderPathLeft b"
    "folderStatusLeft (BaseFolderPair_flip b) = folderStatusRight b"
    "folderStatusRight (BaseFolderPair_flip b) = folderStatusLeft b"
    by (simp_all add: BaseFolderPair_flip_def)
  have all: "BaseFolderPair_fsObjects (BaseFolderPair_flip b) =
     map FileSystemObject_flip (BaseFolderPair_fsObjects b)"
    by (simp add: BaseFolderPair_fsObjects_def base truncate_FilePair_flip
        truncate_SymlinkPair_flip fsObjects_flip comp_def map_concat)
  show ?thesis
    by (simp only: fso fields filep linkp folderp base all truncate_FilePair_flip
        truncate_SymlinkPair_flip fsObjects_flip simp_thms)
qed

subsection \<open>Item names\<close>

text \<open>
  C9. \<^verbatim>\<open>getItemName<side>\<close> returns the name stored for the side if it is not empty
  and the name of the other side otherwise; so for an entity that is not pair-empty
  \<^verbatim>\<open>getItemName\<close> on either side and \<^verbatim>\<open>getItemNameAny\<close> are not empty, also on a side
  where \<^verbatim>\<open>isEmpty\<close> holds.
\<close>

theorem getItemName_fallback:
  "getItemName side x =
     (if selectParam side (itemNameL x) (itemNameR x) \<noteq> []
      then selectParam side (itemNameL x) (itemNameR x)
      else selectParam (getOtherSide side) (itemNameL x) (itemNameR x))
   \<and> (\<not> isPairEmpty x \<longrightarrow> getItemName side x \<noteq> [] \<and> getItemNameAny x \<noteq> [])"
  by (cases side) (auto simp: getItemName_def getItemNameAny_def isPairEmpty_def isEmpty_def
      selectParam_def getOtherSide_def Let_def)

theorem getItemName_fallback_witness:
  "isEmpty SelectSide_left (FileSystemObject_ctor [] ''b.txt'' FILE_RIGHT_SIDE_ONLY) \<and>
   \<not> isPairEmpty (FileSystemObject_ctor [] ''b.txt'' FILE_RIGHT_SIDE_ONLY) \<and>
   getItemName SelectSide_left (FileSystemObject_ctor [] ''b.txt'' FILE_RIGHT_SIDE_ONLY) = ''b.txt'' \<and>
   getItemName SelectSide_left (FileSystemObject_ctor [] ''b.txt'' FILE_RIGHT_SIDE_ONLY) \<noteq> [] \<and>
   getItemNameAny (FileSystemObject_ctor [] ''b.txt'' FILE_RIGHT_SIDE_ONLY) \<noteq> []"
proof -
  let ?x = "FileSystemObject_ctor [] ''b.txt'' FILE_RIGHT_SIDE_ONLY"
  have ne: "\<not> isPairEmpty ?x"
    by (simp add: isPairEmpty_def isEmpty_def selectParam_def FileSystemObject_ctor_def)
  have e: "isEmpty SelectSide_left ?x"
    by (simp add: isEmpty_def selectParam_def FileSystemObject_ctor_def)
  have v: "getItemName SelectSide_left ?x = ''b.txt''"
    using getItemName_fallback [of SelectSide_left ?x]
    by (simp add: selectParam_def getOtherSide_def FileSystemObject_ctor_def)
  from getItemName_fallback [of SelectSide_left ?x] ne
  have "getItemName SelectSide_left ?x \<noteq> [] \<and> getItemNameAny ?x \<noteq> []"
    by blast
  with ne e v show ?thesis by blast
qed

subsection \<open>setSynced\<close>

lemma updateRelPathsRecursion_obj:
  "folderObj (updateRelPathsRecursion appendPath side parentRel x) =
     setRelPath side (appendPath parentRel (getItemName side (folderObj x))) (folderObj x)"
  by (cases x) (simp add: Let_def)

lemma truncate_setRelPath:
  "FileSystemObject.truncate (setRelPath side p ob) = FileSystemObject.truncate ob"
  by (simp add: setRelPath_def FileSystemObject.truncate_def)

lemma truncate_propagateChangedItemName:
  "FileSystemObject.truncate (folderObj (propagateChangedItemName appendPath side parentRel old x)) =
     FileSystemObject.truncate (folderObj x)"
  by (simp add: propagateChangedItemName_def updateRelPathsRecursion_obj truncate_setRelPath)

lemma truncate_FolderPair_setSyncedTo:
  "FileSystemObject.truncate
     (folderObj (FolderPair_setSyncedTo appendPath sideTrg itemName symTrg symSrc pL pR d)) =
   FileSystemObject_setSynced itemName (FileSystemObject.truncate (folderObj d))"
  by (simp add: FolderPair_setSyncedTo_def Let_def truncate_propagateChangedItemName)
    (simp add: FileSystemObject.truncate_def FileSystemObject_setSynced_def
      FileSystemObject_setSyncDir_def FolderPair_notifySyncCfgChanged_def)

lemma truncate_SymlinkPair_setSyncedTo:
  "FileSystemObject.truncate (SymlinkPair_setSyncedTo sideTrg itemName timeTrg timeSrc l) =
   FileSystemObject_setSynced itemName (FileSystemObject.truncate l)"
  by (simp add: SymlinkPair_setSyncedTo_def Let_def FileSystemObject.truncate_def
      FileSystemObject_setSynced_def FileSystemObject_setSyncDir_def)

lemma truncate_FilePair_setSyncedTo:
  "FileSystemObject.truncate
     (FilePair_setSyncedTo sideTrg itemName sz timeTrg timeSrc printTrg printSrc symTrg symSrc f) =
   FileSystemObject_setSynced itemName (FileSystemObject.truncate f)"
  by (simp add: FilePair_setSyncedTo_def Let_def FileSystemObject.truncate_def
      FileSystemObject_setSynced_def FileSystemObject_setSyncDir_def)

text \<open>
  C6. On an entity that is not pair-empty (the precondition that \<^verbatim>\<open>setSynced\<close> asserts),
  \<^verbatim>\<open>setSynced(name)\<close> makes both item names \<open>name\<close>, the category Equal, the direction None
  and the conflict description empty. \<^verbatim>\<open>setSynced\<close> is protected: the symlink and the
  folder reach it through their \<^verbatim>\<open>setSyncedTo\<close>, whose \<^verbatim>\<open>FileSystemObject\<close> part is the
  one of \<^verbatim>\<open>setSynced\<close>.
\<close>

theorem setSynced_postconditions:
  assumes "\<not> isPairEmpty x"
  shows "itemNameL (FileSystemObject_setSynced name x) = name \<and>
         itemNameR (FileSystemObject_setSynced name x) = name \<and>
         cmpResult (FileSystemObject_setSynced name x) = FILE_EQUAL \<and>
         syncDir (FileSystemObject_setSynced name x) = SyncDirection_none \<and>
         syncDirectionConflict (FileSystemObject_setSynced name x) = [] \<and>
         FileSystemObject.truncate (SymlinkPair_setSyncedTo sideTrg name timeTrg timeSrc l) =
           FileSystemObject_setSynced name (FileSystemObject.truncate l) \<and>
         FileSystemObject.truncate
           (folderObj (FolderPair_setSyncedTo appendPath sideTrg name symTrg symSrc pL pR d)) =
           FileSystemObject_setSynced name (FileSystemObject.truncate (folderObj d))"
  by (simp add: truncate_SymlinkPair_setSyncedTo truncate_FolderPair_setSyncedTo)
    (simp add: FileSystemObject_setSynced_def FileSystemObject_setSyncDir_def)

theorem setSynced_postconditions_witness:
  "\<not> isPairEmpty
       (FileSystemObject_setSyncDirConflict ''both sides changed''
          (FileSystemObject_ctor ''a.txt'' [] FILE_LEFT_SIDE_ONLY)) \<and>
   itemNameL (FileSystemObject_setSynced ''x.txt''
       (FileSystemObject_setSyncDirConflict ''both sides changed''
          (FileSystemObject_ctor ''a.txt'' [] FILE_LEFT_SIDE_ONLY))) = ''x.txt'' \<and>
   itemNameR (FileSystemObject_setSynced ''x.txt''
       (FileSystemObject_setSyncDirConflict ''both sides changed''
          (FileSystemObject_ctor ''a.txt'' [] FILE_LEFT_SIDE_ONLY))) = ''x.txt'' \<and>
   cmpResult (FileSystemObject_setSynced ''x.txt''
       (FileSystemObject_setSyncDirConflict ''both sides changed''
          (FileSystemObject_ctor ''a.txt'' [] FILE_LEFT_SIDE_ONLY))) = FILE_EQUAL \<and>
   syncDir (FileSystemObject_setSynced ''x.txt''
       (FileSystemObject_setSyncDirConflict ''both sides changed''
          (FileSystemObject_ctor ''a.txt'' [] FILE_LEFT_SIDE_ONLY))) = SyncDirection_none \<and>
   syncDirectionConflict (FileSystemObject_setSynced ''x.txt''
       (FileSystemObject_setSyncDirConflict ''both sides changed''
          (FileSystemObject_ctor ''a.txt'' [] FILE_LEFT_SIDE_ONLY))) = []"
proof -
  let ?x = "FileSystemObject_setSyncDirConflict ''both sides changed''
          (FileSystemObject_ctor ''a.txt'' [] FILE_LEFT_SIDE_ONLY)"
  have ne: "\<not> isPairEmpty ?x"
    by (simp add: isPairEmpty_def isEmpty_def selectParam_def FileSystemObject_ctor_def
        FileSystemObject_setSyncDirConflict_def)
  from setSynced_postconditions [OF ne, of "''x.txt''"] ne show ?thesis by blast
qed

text \<open>
  C10. \<^verbatim>\<open>FilePair::setSyncedTo<sideTrg>\<close> resets the move reference, gives both sides
  the one file size, the target side the target's write time, fingerprint and symlink
  flag and the other side the source's, and has the postconditions of \<^verbatim>\<open>setSynced\<close>:
  both names are the item name, the category is Equal, the direction None (and the
  conflict description empty).
\<close>

theorem FilePair_setSyncedTo_postconditions:
  "moveFileRef (FilePair_setSyncedTo sideTrg itemName sz timeTrg timeSrc printTrg printSrc symTrg symSrc f) = None \<and>
   getFileSize SelectSide_left (FilePair_setSyncedTo sideTrg itemName sz timeTrg timeSrc printTrg printSrc symTrg symSrc f) = sz \<and>
   getFileSize SelectSide_right (FilePair_setSyncedTo sideTrg itemName sz timeTrg timeSrc printTrg printSrc symTrg symSrc f) = sz \<and>
   getAttributes sideTrg (FilePair_setSyncedTo sideTrg itemName sz timeTrg timeSrc printTrg printSrc symTrg symSrc f) =
     \<lparr>modTime = timeTrg, fileSize = sz, filePrint = printTrg, isFollowedSymlink = symTrg\<rparr> \<and>
   getAttributes (getOtherSide sideTrg) (FilePair_setSyncedTo sideTrg itemName sz timeTrg timeSrc printTrg printSrc symTrg symSrc f) =
     \<lparr>modTime = timeSrc, fileSize = sz, filePrint = printSrc, isFollowedSymlink = symSrc\<rparr> \<and>
   itemNameL (FilePair_setSyncedTo sideTrg itemName sz timeTrg timeSrc printTrg printSrc symTrg symSrc f) = itemName \<and>
   itemNameR (FilePair_setSyncedTo sideTrg itemName sz timeTrg timeSrc printTrg printSrc symTrg symSrc f) = itemName \<and>
   cmpResult (FilePair_setSyncedTo sideTrg itemName sz timeTrg timeSrc printTrg printSrc symTrg symSrc f) = FILE_EQUAL \<and>
   syncDir (FilePair_setSyncedTo sideTrg itemName sz timeTrg timeSrc printTrg printSrc symTrg symSrc f) = SyncDirection_none \<and>
   syncDirectionConflict (FilePair_setSyncedTo sideTrg itemName sz timeTrg timeSrc printTrg printSrc symTrg symSrc f) = []"
  by (cases sideTrg)
    (simp_all add: FilePair_setSyncedTo_def Let_def FileSystemObject_setSynced_def
      FileSystemObject_setSyncDir_def getFileSize_def getAttributes_def selectParam_def
      getOtherSide_def FileAttributes_ctor_def)

subsection \<open>The registry\<close>

lemma activeObjectsAfter_snoc:
  "activeObjectsAfter (events @ [e]) = ObjectMgr_step e (activeObjectsAfter events)"
  by (simp add: activeObjectsAfter_def)

lemma alive_snoc: "alive a (events @ [e]) = aliveRev a (e # rev events)"
  by (simp add: alive_def)

lemma mem_activeObjectsAfter: "a \<in> activeObjectsAfter events \<longleftrightarrow> alive a events"
proof (induction events rule: rev_induct)
  case Nil
  show ?case by (simp add: activeObjectsAfter_def alive_def)
next
  case (snoc e events)
  show ?case
  proof (cases e)
    case (Constructed b)
    with snoc show ?thesis
      by (simp add: activeObjectsAfter_snoc alive_snoc ObjectMgr_ctor_def) (simp add: alive_def)
  next
    case (Destroyed b)
    with snoc show ?thesis
      by (simp add: activeObjectsAfter_snoc alive_snoc ObjectMgr_dtor_def) (simp add: alive_def)
  qed
qed

text \<open>
  C8. \<^verbatim>\<open>retrieve(id)\<close> returns the pointer (the id itself) exactly when the id is in the
  set of live objects, and the null pointer otherwise; after any history of
  constructions and destructions the id is in the set exactly when the object has been
  constructed and not destroyed since, so a lookup after the destruction returns the null
  pointer.
\<close>

theorem retrieve_registered:
  "(retrieve a activeObjects = Some a) = (a \<in> activeObjects) \<and>
   (retrieve a activeObjects = None) = (a \<notin> activeObjects) \<and>
   (retrieve a (activeObjectsAfter events) = Some a) = alive a events \<and>
   (retrieve a (activeObjectsAfter events) = None) = (\<not> alive a events) \<and>
   retrieve a (ObjectMgr_ctor a activeObjects) = Some a \<and>
   retrieve a (ObjectMgr_dtor a activeObjects) = None \<and>
   retrieve a (activeObjectsAfter (events @ [Destroyed a])) = None"
  by (simp add: retrieve_def mem_activeObjectsAfter ObjectMgr_ctor_def ObjectMgr_dtor_def
      alive_snoc)

subsection \<open>Traversal order\<close>

lemma fold_concat_lists: "fold f (concat xss) s = fold (fold f) xss s"
  by (induction xss arbitrary: s) simp_all

lemma visitFSObject_simps:
  "visitFSObject (File f) onFolder onFile onSymlink = onFile f"
  "visitFSObject (Symlink l) onFolder onFile onSymlink = onSymlink l"
  "visitFSObject (Folder d) onFolder onFile onSymlink = onFolder d"
  by (rule ext, simp add: visitFSObject_def)+

lemma execute_visitOrder:
  "execute onFolder onFile onSymlink x s =
     fold (\<lambda>v. visitFSObject v onFolder onFile onSymlink) (visitOrder x) s"
proof (induction x arbitrary: s)
  case (FolderPair ob fs ls ds)
  let ?V = "\<lambda>v. visitFSObject v onFolder onFile onSymlink"
  have files: "fold ?V (map File fs) t = fold onFile fs t" for t
    by (simp add: fold_map comp_def visitFSObject_simps)
  have links: "fold ?V (map Symlink ls) t = fold onSymlink ls t" for t
    by (simp add: fold_map comp_def visitFSObject_simps)
  have folders:
    "fold (\<lambda>d t. execute onFolder onFile onSymlink d (onFolder d t)) ds t =
       fold ?V (concat (map (\<lambda>d. Folder d # visitOrder d) ds)) t" for t
  proof -
    have "fold (\<lambda>d t. execute onFolder onFile onSymlink d (onFolder d t)) ds t =
        fold (\<lambda>d. fold ?V (Folder d # visitOrder d)) ds t"
      by (rule fold_cong) (simp_all add: FolderPair.IH visitFSObject_simps fun_eq_iff)
    then show ?thesis by (simp add: fold_concat_lists fold_map comp_def)
  qed
  show ?case by (simp add: files links folders del: fold_simps)
qed

text \<open>
  C7. The recursive walk calls, at each level, \<open>onFile\<close> on every file, then
  \<open>onSymlink\<close> on every symlink, then for each sub-folder \<open>onFolder\<close> on it and at once
  the walk of what it contains, before the next sub-folder: it runs the callbacks over
  \<open>visitOrder\<close> from left to right. \<^verbatim>\<open>visitFSObject\<close> calls the one callback of the variant
  of its object and nothing else.
\<close>

theorem traversal_order:
  "execute onFolder onFile onSymlink x s =
     fold (\<lambda>v. visitFSObject v onFolder onFile onSymlink) (visitOrder x) s \<and>
   BaseFolderPair_execute onFolder onFile onSymlink b s =
     fold (\<lambda>v. visitFSObject v onFolder onFile onSymlink) (BaseFolderPair_visitOrder b) s \<and>
   visitOrder x =
     map File (subFiles x) @ map Symlink (subLinks x) @
       concat (map (\<lambda>d. Folder d # visitOrder d) (subFolders x)) \<and>
   visitFSObjectRecursively (Folder x) onFolder onFile onSymlink s =
     fold (\<lambda>v. visitFSObject v onFolder onFile onSymlink) (Folder x # visitOrder x) s \<and>
   visitFSObjectRecursively (File f) onFolder onFile onSymlink s = onFile f s \<and>
   visitFSObjectRecursively (Symlink l) onFolder onFile onSymlink s = onSymlink l s \<and>
   visitFSObject (Folder x) onFolder onFile onSymlink s = onFolder x s \<and>
   visitFSObject (File f) onFolder onFile onSymlink s = onFile f s \<and>
   visitFSObject (Symlink l) onFolder onFile onSymlink s = onSymlink l s"
proof -
  let ?V = "\<lambda>v. visitFSObject v onFolder onFile onSymlink"
  have base: "BaseFolderPair_execute onFolder onFile onSymlink b s =
     fold ?V (BaseFolderPair_visitOrder b) s"
  proof -
    have "fold (\<lambda>d t. execute onFolder onFile onSymlink d (onFolder d t)) (baseSubFolders b) t =
        fold (\<lambda>d. fold ?V (Folder d # visitOrder d)) (baseSubFolders b) t" for t
      by (rule fold_cong) (simp_all add: execute_visitOrder visitFSObject_simps fun_eq_iff)
    then show ?thesis
      by (simp add: BaseFolderPair_execute_def BaseFolderPair_visitOrder_def fold_concat_lists
          fold_map comp_def visitFSObject_simps)
  qed
  have order: "visitOrder x =
     map File (subFiles x) @ map Symlink (subLinks x) @
       concat (map (\<lambda>d. Folder d # visitOrder d) (subFolders x))"
    by (cases x) simp
  have rec: "visitFSObjectRecursively (Folder x) onFolder onFile onSymlink s =
     fold ?V (Folder x # visitOrder x) s"
    by (simp add: visitFSObjectRecursively_def execute_visitOrder visitFSObject_simps)
  have one: "visitFSObjectRecursively (File f) onFolder onFile onSymlink s = onFile f s"
    "visitFSObjectRecursively (Symlink l) onFolder onFile onSymlink s = onSymlink l s"
    "visitFSObject (Folder x) onFolder onFile onSymlink s = onFolder x s"
    "visitFSObject (File f) onFolder onFile onSymlink s = onFile f s"
    "visitFSObject (Symlink l) onFolder onFile onSymlink s = onSymlink l s"
    by (simp_all add: visitFSObjectRecursively_def visitFSObject_def)
  show ?thesis
    by (intro conjI) (rule execute_visitOrder base order rec one)+
qed

subsection \<open>removeObject\<close>

lemma truncate_FilePair_removeObject:
  "FileSystemObject.truncate (FilePair_removeObject side f) =
     FileSystemObject_removeObject side (\<lambda>y. y) (FileSystemObject.truncate f)"
  by (simp add: FilePair_removeObject_def FileSystemObject_removeObject_def
      FilePair_removeObjectLR_def clearItemName_def FileSystemObject_setSyncDir_def
      FileSystemObject.truncate_def isEmpty_def)

lemma truncate_SymlinkPair_removeObject:
  "FileSystemObject.truncate (SymlinkPair_removeObject side l) =
     FileSystemObject_removeObject side (\<lambda>y. y) (FileSystemObject.truncate l)"
  by (simp add: SymlinkPair_removeObject_def FileSystemObject_removeObject_def
      SymlinkPair_removeObjectLR_def clearItemName_def FileSystemObject_setSyncDir_def
      FileSystemObject.truncate_def isEmpty_def)

lemma truncate_FolderObject_removeObject:
  "FileSystemObject.truncate
     (FolderPair_notifySyncCfgChanged
        (FileSystemObject_removeObject side (FolderPair_removeObjectLR side) ob)) =
     FileSystemObject_removeObject side (\<lambda>y. y) (FileSystemObject.truncate ob)"
  by (simp add: FolderPair_notifySyncCfgChanged_def FileSystemObject_removeObject_def
      FolderPair_removeObjectLR_def clearItemName_def FileSystemObject_setSyncDir_def
      FileSystemObject.truncate_def isEmpty_def)

lemma fsObjects_updateRelPathsRecursion:
  "fsObjects (updateRelPathsRecursion appendPath side parentRel x) = fsObjects x"
proof (induction x arbitrary: parentRel)
  case (FolderPair ob fs ls ds)
  have sub: "map (\<lambda>d. fsObjects (updateRelPathsRecursion appendPath side p d)) ds =
      map fsObjects ds" for p
    using FolderPair.IH by simp
  show ?case
    by (simp add: Let_def truncate_setRelPath comp_def sub)
qed

lemma fsObjects_propagateChangedItemName:
  "fsObjects (propagateChangedItemName appendPath side parentRel old x) = fsObjects x"
  by (simp add: propagateChangedItemName_def fsObjects_updateRelPathsRecursion)

lemma children_updateRelPathsRecursion:
  "subFiles (updateRelPathsRecursion appendPath side parentRel x) = subFiles x"
  "subLinks (updateRelPathsRecursion appendPath side parentRel x) = subLinks x"
  "length (subFolders (updateRelPathsRecursion appendPath side parentRel x)) =
     length (subFolders x)"
  by (cases x; simp add: Let_def)+

lemma children_propagateChangedItemName:
  "subFiles (propagateChangedItemName appendPath side parentRel old x) = subFiles x"
  "subLinks (propagateChangedItemName appendPath side parentRel old x) = subLinks x"
  "length (subFolders (propagateChangedItemName appendPath side parentRel old x)) =
     length (subFolders x)"
  by (simp_all add: propagateChangedItemName_def children_updateRelPathsRecursion)

lemma attrs_propagateChangedItemName:
  "folderAttrL (folderObj (propagateChangedItemName appendPath side parentRel old x)) =
     folderAttrL (folderObj x)"
  "folderAttrR (folderObj (propagateChangedItemName appendPath side parentRel old x)) =
     folderAttrR (folderObj x)"
  by (simp_all add: propagateChangedItemName_def updateRelPathsRecursion_obj setRelPath_def)

lemma fsObjects_removeObject:
  "fsObjects (FolderPair_removeObject appendPath side parentRel x) =
     map (FileSystemObject_removeObject side (\<lambda>y. y)) (fsObjects x)"
proof (induction x arbitrary: parentRel)
  case (FolderPair ob fs ls ds)
  have sub: "map (\<lambda>d. fsObjects (FolderPair_removeObject appendPath side p d)) ds =
      map (\<lambda>d. map (FileSystemObject_removeObject side (\<lambda>y. y)) (fsObjects d)) ds" for p
    using FolderPair.IH by simp
  show ?case
    by (simp add: fsObjects_propagateChangedItemName truncate_FolderObject_removeObject
        truncate_FilePair_removeObject truncate_SymlinkPair_removeObject comp_def map_concat sub)
qed

lemma children_removeObject:
  "subFiles (FolderPair_removeObject appendPath side parentRel x) =
     map (FilePair_removeObject side) (subFiles x)"
  "subLinks (FolderPair_removeObject appendPath side parentRel x) =
     map (SymlinkPair_removeObject side) (subLinks x)"
  "length (subFolders (FolderPair_removeObject appendPath side parentRel x)) =
     length (subFolders x)"
  by (cases x; simp add: children_propagateChangedItemName)+

text \<open>
  C4. \<^verbatim>\<open>removeObject<side>\<close> leaves the entity without a name on \<open>side\<close> and with the
  name of the other side as it was; the category is Equal if the other side had no name
  and the other side's Only category if it had; the direction is None and the conflict
  description empty. A file or a symlink loses its attributes of the side. On a folder
  the same removal reaches every file, symlink and folder below it, and no entity
  leaves the tree: the lists of children keep their lengths and the entities their
  order.
\<close>

theorem removeObject_postconditions:
  "isEmpty side (FileSystemObject_removeObject side (\<lambda>y. y) x) \<and>
   selectParam (getOtherSide side)
       (itemNameL (FileSystemObject_removeObject side (\<lambda>y. y) x))
       (itemNameR (FileSystemObject_removeObject side (\<lambda>y. y) x)) =
     selectParam (getOtherSide side) (itemNameL x) (itemNameR x) \<and>
   cmpResult (FileSystemObject_removeObject side (\<lambda>y. y) x) =
     (if isEmpty (getOtherSide side) x then FILE_EQUAL
      else if side = SelectSide_left then FILE_RIGHT_SIDE_ONLY else FILE_LEFT_SIDE_ONLY) \<and>
   isPairEmpty (FileSystemObject_removeObject side (\<lambda>y. y) x) = isEmpty (getOtherSide side) x \<and>
   syncDir (FileSystemObject_removeObject side (\<lambda>y. y) x) = SyncDirection_none \<and>
   syncDirectionConflict (FileSystemObject_removeObject side (\<lambda>y. y) x) = [] \<and>
   FileSystemObject.truncate (FilePair_removeObject side f) =
     FileSystemObject_removeObject side (\<lambda>y. y) (FileSystemObject.truncate f) \<and>
   getAttributes side (FilePair_removeObject side f) = FileAttributes_default \<and>
   getAttributes (getOtherSide side) (FilePair_removeObject side f) =
     getAttributes (getOtherSide side) f \<and>
   FileSystemObject.truncate (SymlinkPair_removeObject side l) =
     FileSystemObject_removeObject side (\<lambda>y. y) (FileSystemObject.truncate l) \<and>
   selectParam side (linkAttrL (SymlinkPair_removeObject side l))
       (linkAttrR (SymlinkPair_removeObject side l)) = LinkAttributes_default \<and>
   fsObjects (FolderPair_removeObject appendPath side parentRel d) =
     map (FileSystemObject_removeObject side (\<lambda>y. y)) (fsObjects d) \<and>
   selectParam side (folderAttrL (folderObj (FolderPair_removeObject appendPath side parentRel d)))
       (folderAttrR (folderObj (FolderPair_removeObject appendPath side parentRel d))) =
     FolderAttributes_default \<and>
   subFiles (FolderPair_removeObject appendPath side parentRel d) =
     map (FilePair_removeObject side) (subFiles d) \<and>
   subLinks (FolderPair_removeObject appendPath side parentRel d) =
     map (SymlinkPair_removeObject side) (subLinks d) \<and>
   length (subFolders (FolderPair_removeObject appendPath side parentRel d)) =
     length (subFolders d)"
proof -
  let ?R = "FileSystemObject_removeObject side (\<lambda>y. y)"
  have obj: "isEmpty side (?R x)"
    "selectParam (getOtherSide side) (itemNameL (?R x)) (itemNameR (?R x)) =
       selectParam (getOtherSide side) (itemNameL x) (itemNameR x)"
    "cmpResult (?R x) =
       (if isEmpty (getOtherSide side) x then FILE_EQUAL
        else if side = SelectSide_left then FILE_RIGHT_SIDE_ONLY else FILE_LEFT_SIDE_ONLY)"
    "isPairEmpty (?R x) = isEmpty (getOtherSide side) x"
    "syncDir (?R x) = SyncDirection_none"
    "syncDirectionConflict (?R x) = []"
    by (cases side; simp add: FileSystemObject_removeObject_def clearItemName_def
        FileSystemObject_setSyncDir_def isEmpty_def isPairEmpty_def selectParam_def
        getOtherSide_def)+
  have attrs: "getAttributes side (FilePair_removeObject side f) = FileAttributes_default"
    "getAttributes (getOtherSide side) (FilePair_removeObject side f) =
       getAttributes (getOtherSide side) f"
    "selectParam side (linkAttrL (SymlinkPair_removeObject side l))
       (linkAttrR (SymlinkPair_removeObject side l)) = LinkAttributes_default"
    by (cases side; simp add: FilePair_removeObject_def SymlinkPair_removeObject_def
        FileSystemObject_removeObject_def FilePair_removeObjectLR_def
        SymlinkPair_removeObjectLR_def clearItemName_def FileSystemObject_setSyncDir_def
        getAttributes_def selectParam_def getOtherSide_def)+
  have fattr:
    "selectParam side (folderAttrL (folderObj (FolderPair_removeObject appendPath side parentRel d)))
       (folderAttrR (folderObj (FolderPair_removeObject appendPath side parentRel d))) =
     FolderAttributes_default"
    by (cases d; cases side;
        simp add: attrs_propagateChangedItemName
          FolderPair_notifySyncCfgChanged_def FileSystemObject_removeObject_def
          FolderPair_removeObjectLR_def clearItemName_def FileSystemObject_setSyncDir_def
          selectParam_def)
  show ?thesis
    by (intro conjI)
      (rule obj attrs fattr truncate_FilePair_removeObject truncate_SymlinkPair_removeObject
        fsObjects_removeObject children_removeObject)+
qed

subsection \<open>Direction and conflict\<close>

lemma dirConflictOk_truncate [simp]:
  "dirConflictOk (FileSystemObject.truncate x) = dirConflictOk x"
  by (simp add: dirConflictOk_def FileSystemObject.truncate_def)

lemma dirConflictOk_entity:
  "dirConflictOk (FileSystemObject_setSyncDir newDir x)"
  "dirConflictOk (FileSystemObject_setSyncDirConflict description x)"
  "dirConflictOk (FileSystemObject_setSynced itemName x)"
  "dirConflictOk (FileSystemObject_removeObject side hook x)"
  "dirConflictOk (FileSystemObject_setActive active x) = dirConflictOk x"
  "dirConflictOk (setCategory res x) = dirConflictOk x"
  "dirConflictOk (setCategoryConflict description x) = dirConflictOk x"
  "dirConflictOk (setCategoryDiffMetadata description x) = dirConflictOk x"
  "dirConflictOk (FileSystemObject_flip x) = dirConflictOk x"
  by (simp_all add: dirConflictOk_def FileSystemObject_setSyncDir_def
      FileSystemObject_setSyncDirConflict_def FileSystemObject_setSynced_def
      FileSystemObject_removeObject_def FileSystemObject_setActive_def setCategory_def
      setCategoryConflict_def setCategoryDiffMetadata_def FileSystemObject_flip_def)

lemma dirConflictOk_pairs:
  "dirConflictOk (FilePair_ctor nameL aL c nameR aR)"
  "dirConflictOk (SymlinkPair_ctor nameL bL c nameR bR)"
  "dirConflictOk (FilePair_removeObject side f)"
  "dirConflictOk (SymlinkPair_removeObject side l)"
  "dirConflictOk (FilePair_setSyncedTo sideTrg itemName sz t1 t2 p1 p2 s1 s2 f)"
  "dirConflictOk (SymlinkPair_setSyncedTo sideTrg itemName t1 t2 l)"
  "dirConflictOk (FilePair_flip f) = dirConflictOk f"
  "dirConflictOk (SymlinkPair_flip l) = dirConflictOk l"
  "dirConflictOk (setMoveRef refId f) = dirConflictOk f"
  by (simp_all add: dirConflictOk_def FilePair_ctor_def SymlinkPair_ctor_def
      FileSystemObject_ctor_def FileSystemObject.extend_def FilePair.fields_def
      SymlinkPair.fields_def FilePair_removeObject_def SymlinkPair_removeObject_def
      FileSystemObject_removeObject_def FileSystemObject_setSyncDir_def
      FilePair_setSyncedTo_def SymlinkPair_setSyncedTo_def FileSystemObject_setSynced_def
      FilePair_flip_def SymlinkPair_flip_def FileSystemObject_flip_def setMoveRef_def Let_def)

lemma dirConflictOk_folderObj:
  "dirConflictOk (FolderPair_notifySyncCfgChanged ob) = dirConflictOk ob"
  "dirConflictOk (setRelPath side p ob) = dirConflictOk ob"
  by (simp_all add: dirConflictOk_def FolderPair_notifySyncCfgChanged_def setRelPath_def)

lemma treeOk_sel:
  "treeOk x =
     (dirConflictOk (folderObj x) \<and> list_all dirConflictOk (subFiles x) \<and>
      list_all dirConflictOk (subLinks x) \<and> list_all treeOk (subFolders x))"
  by (cases x) simp

lemma treeOk_ctor:
  "treeOk (FolderPair_ctor appendPath nameL aL c nameR aR parentRelL parentRelR)"
  by (simp add: FolderPair_ctor_def Let_def dirConflictOk_def FileSystemObject_ctor_def
      FileSystemObject.extend_def FolderObject.fields_def)

lemma treeOk_updateRelPathsRecursion:
  "treeOk (updateRelPathsRecursion appendPath side parentRel x) = treeOk x"
proof (induction x arbitrary: parentRel)
  case (FolderPair ob fs ls ds)
  have "list_all (\<lambda>d. treeOk (updateRelPathsRecursion appendPath side p d)) ds =
      list_all treeOk ds" for p
    using FolderPair.IH by (simp add: list_all_iff)
  then show ?case
    by (simp add: Let_def dirConflictOk_folderObj list_all_iff)
qed

lemma treeOk_propagateChangedItemName:
  "treeOk (propagateChangedItemName appendPath side parentRel old x) = treeOk x"
  by (simp add: propagateChangedItemName_def treeOk_updateRelPathsRecursion)

lemma treeOk_removeObject: "treeOk (FolderPair_removeObject appendPath side parentRel x)"
proof (induction x arbitrary: parentRel)
  case (FolderPair ob fs ls ds)
  then show ?case
    by (simp add: treeOk_propagateChangedItemName dirConflictOk_folderObj dirConflictOk_entity
        dirConflictOk_pairs list_all_iff)
qed

lemma treeOk_flip: "treeOk (FolderPair_flip x) = treeOk x"
proof (induction x)
  case (FolderPair ob fs ls ds)
  have ob: "dirConflictOk
       (let c = ob\<lparr>relPathL := relPathR ob, relPathR := relPathL ob\<rparr>;
            g = FolderPair_notifySyncCfgChanged (FileSystemObject_flip c)
        in g\<lparr>folderAttrL := folderAttrR g, folderAttrR := folderAttrL g\<rparr>) = dirConflictOk ob"
    by (simp add: dirConflictOk_def FolderPair_notifySyncCfgChanged_def
        FileSystemObject_flip_def)
  from FolderPair.IH show ?case
    by (simp only: FolderPair_flip.simps treeOk.simps ob) (simp add: list_all_iff dirConflictOk_pairs)
qed

lemma treeOk_setSyncedTo:
  "treeOk x \<Longrightarrow>
   treeOk (FolderPair_setSyncedTo appendPath sideTrg itemName symTrg symSrc pL pR x)"
  by (simp add: FolderPair_setSyncedTo_def Let_def treeOk_propagateChangedItemName
      dirConflictOk_folderObj dirConflictOk_entity)
    (simp add: treeOk_sel)

lemma treeOk_onFolderObj:
  "treeOk x \<Longrightarrow> dirConflictOk (f (folderObj x)) \<Longrightarrow> treeOk (onFolderObj f x)"
  by (simp add: onFolderObj_def treeOk_sel)

lemma treeOk_onFolderObj_pres:
  "(\<And>ob. dirConflictOk ob \<Longrightarrow> dirConflictOk (f ob)) \<Longrightarrow> treeOk x \<Longrightarrow> treeOk (onFolderObj f x)"
  by (simp add: onFolderObj_def treeOk_sel)

lemma treeOk_getSyncOperation:
  "treeOk x \<Longrightarrow> treeOk (snd (FolderPair_getSyncOperation recompute x))"
  by (auto simp: FolderPair_getSyncOperation_def onFolderObj_def treeOk_sel dirConflictOk_def
      split: option.split)

lemma list_all_update_fun:
  "list_all P xs \<Longrightarrow> (\<And>x. P x \<Longrightarrow> P (f x)) \<Longrightarrow> list_all P (xs[i := f (xs ! i)])"
  by (cases "i < length xs") (auto simp: list_all_length nth_list_update)

lemma childrenOk_onObject:
  assumes "childrenOk c"
    and "\<And>x. dirConflictOk x \<Longrightarrow> dirConflictOk (onFile x)"
    and "\<And>x. dirConflictOk x \<Longrightarrow> dirConflictOk (onSymlink x)"
    and "\<And>x. treeOk x \<Longrightarrow> treeOk (onFolder pL pR x)"
  shows "childrenOk (onObject onFile onSymlink onFolder r pL pR c)"
proof -
  obtain fs ls ds where c: "c = (fs, ls, ds)" by (cases c)
  show ?thesis
    using assms unfolding c
    by (cases r) (simp_all add: childrenOk_def list_all_update_fun)
qed

lemma childrenOk_atPath:
  assumes g: "\<And>pL pR c. childrenOk c \<Longrightarrow> childrenOk (g pL pR c)"
  shows "childrenOk c \<Longrightarrow> childrenOk (atPath notify path g pL pR c)"
proof (induction path arbitrary: pL pR c)
  case Nil
  then show ?case by (simp add: g)
next
  case (Cons i path)
  obtain fs ls ds where c: "c = (fs, ls, ds)" by (cases c)
  let ?step = "\<lambda>d. case d of FolderPair ob fs1 ls1 ds1 \<Rightarrow>
      (case atPath notify path g (relPathL ob) (relPathR ob) (fs1, ls1, ds1) of
         (fs2, ls2, ds2) \<Rightarrow>
           FolderPair (if notify then FolderPair_notifySyncCfgChanged ob else ob) fs2 ls2 ds2)"
  have step: "treeOk (?step d)" if "treeOk d" for d
  proof (cases d)
    case (FolderPair ob fs1 ls1 ds1)
    with that have sub: "childrenOk (fs1, ls1, ds1)" and ob: "dirConflictOk ob"
      by (simp_all add: childrenOk_def)
    from sub have "childrenOk (atPath notify path g (relPathL ob) (relPathR ob) (fs1, ls1, ds1))"
      by (rule Cons.IH)
    with ob show ?thesis
      unfolding FolderPair
      by (auto simp: childrenOk_def dirConflictOk_folderObj split: prod.splits)
  qed
  from Cons.prems have "list_all treeOk ds" and rest: "list_all dirConflictOk fs"
    "list_all dirConflictOk ls"
    by (simp_all add: c childrenOk_def)
  then have "list_all treeOk (ds[i := ?step (ds ! i)])"
    using step by (intro list_all_update_fun)
  with rest show ?case by (simp add: c childrenOk_def)
qed

lemma childrenOk_base:
  "childrenOk (baseChildren (setBaseChildren c b)) = childrenOk c"
  by (cases c) (simp add: baseChildren_def setBaseChildren_def childrenOk_def)

lemma childrenOk_atContainer:
  assumes "\<And>pL pR c. childrenOk c \<Longrightarrow> childrenOk (g pL pR c)"
    and "childrenOk (baseChildren b)"
  shows "childrenOk (baseChildren (atContainer notify path g b))"
  using assms by (simp add: atContainer_def childrenOk_base childrenOk_atPath)

lemma childrenOk_atObject:
  assumes "\<And>x. dirConflictOk x \<Longrightarrow> dirConflictOk (onFile x)"
    and "\<And>x. dirConflictOk x \<Longrightarrow> dirConflictOk (onSymlink x)"
    and "\<And>pL pR x. treeOk x \<Longrightarrow> treeOk (onFolder pL pR x)"
    and "childrenOk (baseChildren b)"
  shows "childrenOk (baseChildren (atObject notify path r onFile onSymlink onFolder b))"
  using assms
  by (simp add: atObject_def childrenOk_base childrenOk_atPath childrenOk_onObject)

lemma childrenOk_add:
  "childrenOk c \<Longrightarrow> childrenOk (addFile nameL aL cmp nameR aR c)"
  "childrenOk c \<Longrightarrow> childrenOk (addLink nameL bL cmp nameR bR c)"
  "childrenOk c \<Longrightarrow> childrenOk (addFolder appendPath nameL cL cmp nameR cR pL pR c)"
  by (cases c; simp add: addFile_def addLink_def addFolder_def childrenOk_def
      dirConflictOk_pairs treeOk_ctor)+

lemma childrenOk_flip:
  "childrenOk (baseChildren b) \<Longrightarrow> childrenOk (baseChildren (BaseFolderPair_flip b))"
  by (simp add: baseChildren_def BaseFolderPair_flip_def childrenOk_def list_all_iff
      dirConflictOk_pairs treeOk_flip)

lemma childrenOk_exec:
  "childrenOk (baseChildren b) \<Longrightarrow> childrenOk (baseChildren (exec appendPath recompute cmd b))"
  by (cases cmd)
    (auto intro!: childrenOk_atContainer childrenOk_atObject childrenOk_add childrenOk_flip
      treeOk_onFolderObj_pres treeOk_removeObject treeOk_setSyncedTo treeOk_getSyncOperation
      simp: dirConflictOk_entity dirConflictOk_pairs dirConflictOk_folderObj)

lemma childrenOk_fold_exec:
  "childrenOk (baseChildren b) \<Longrightarrow>
   childrenOk (baseChildren (fold (exec appendPath recompute) cmds b))"
  by (induction cmds arbitrary: b) (simp_all add: childrenOk_exec)

lemma list_all_concat: "list_all P (concat xss) = list_all (list_all P) xss"
  by (induction xss) simp_all

lemma list_all_truncate:
  "list_all dirConflictOk (map FileSystemObject.truncate xs) = list_all dirConflictOk xs"
  by (induction xs) simp_all

lemma treeOk_fsObjects: "treeOk x = list_all dirConflictOk (fsObjects x)"
proof (induction x)
  case (FolderPair ob fs ls ds)
  have "list_all treeOk ds = list_all (\<lambda>d. list_all dirConflictOk (fsObjects d)) ds"
    using FolderPair.IH by (simp add: list_all_iff)
  then show ?case
    by (simp add: list_all_concat list_all_truncate list.pred_map comp_def)
qed

lemma childrenOk_fsObjects:
  "childrenOk (baseChildren b) = list_all dirConflictOk (BaseFolderPair_fsObjects b)"
proof -
  have "list_all treeOk ds = list_all (\<lambda>d. list_all dirConflictOk (fsObjects d)) ds" for ds
    by (simp add: list_all_iff treeOk_fsObjects)
  then show ?thesis
    by (simp add: childrenOk_def baseChildren_def BaseFolderPair_fsObjects_def
        list_all_concat list_all_truncate list.pred_map comp_def)
qed

text \<open>
  C5. In every tree that a sequence of operations builds from a new \<^verbatim>\<open>BaseFolderPair\<close>
  (adding files, symlinks and folders, \<^verbatim>\<open>setSyncDir\<close>, \<^verbatim>\<open>setSyncDirConflict\<close>,
  \<^verbatim>\<open>setActive\<close>, \<^verbatim>\<open>removeObject\<close>, \<^verbatim>\<open>setSyncedTo\<close>, the category setters,
  \<^verbatim>\<open>setMoveRef\<close>, \<^verbatim>\<open>getSyncOperation\<close> and \<^verbatim>\<open>flip\<close>, in any order and on any
  object), no entity has at once a sync direction other than None and a conflict
  description that is not empty.
\<close>

theorem direction_conflict_exclusive:
  "list_all
     (\<lambda>x. \<not> (syncDir x \<noteq> SyncDirection_none \<and> syncDirectionConflict x \<noteq> []))
     (BaseFolderPair_fsObjects
        (fold (exec appendPath recompute) commands
           (BaseFolderPair_ctor pathLeft statusLeft pathRight statusRight flt cv tol shifts)))"
proof -
  let ?b = "BaseFolderPair_ctor pathLeft statusLeft pathRight statusRight flt cv tol shifts"
  have "childrenOk (baseChildren ?b)"
    by (simp add: BaseFolderPair_ctor_def baseChildren_def childrenOk_def)
  then have "childrenOk (baseChildren (fold (exec appendPath recompute) commands ?b))"
    by (rule childrenOk_fold_exec)
  then have "list_all dirConflictOk
      (BaseFolderPair_fsObjects (fold (exec appendPath recompute) commands ?b))"
    by (simp only: childrenOk_fsObjects)
  moreover have "dirConflictOk =
      (\<lambda>x::FileSystemObject.
         \<not> (syncDir x \<noteq> SyncDirection_none \<and> syncDirectionConflict x \<noteq> []))"
    by (auto simp: dirConflictOk_def fun_eq_iff)
  ultimately show ?thesis by simp
qed

theorem direction_conflict_exclusive_witness:
  "map (\<lambda>x. (syncDir x, syncDirectionConflict x)) (BaseFolderPair_fsObjects trace_tree) =
     [(SyncDirection_none, ''changed on both sides''), (SyncDirection_none, []),
      (SyncDirection_right, [])] \<and>
   list_all
     (\<lambda>x. \<not> (syncDir x \<noteq> SyncDirection_none \<and> syncDirectionConflict x \<noteq> []))
     (BaseFolderPair_fsObjects trace_tree)"
proof -
  have "map (\<lambda>x. (syncDir x, syncDirectionConflict x)) (BaseFolderPair_fsObjects trace_tree) =
     [(SyncDirection_none, ''changed on both sides''), (SyncDirection_none, []),
      (SyncDirection_right, [])]"
    by code_simp
  with direction_conflict_exclusive [of scenario_appendPath FolderPair_recompute _
      "''/left''" BaseFolderStatus_existing "''/right''" BaseFolderStatus_notExisting
      "()" CompareVariant_content 2 "[]"]
  show ?thesis unfolding trace_tree_def by blast
qed

subsection \<open>The buffered sync operation of a folder\<close>



















































end
